theory Spec2Isabelle
  imports Complex_Main
begin

section \<open>Objects of the task runtime (trollius/tasks.py)\<close>

text \<open>
  Python objects live in a heap and are compared by identity.  A Future (and so a Task
  or a \<open>_GatheringFuture\<close>) is identified by its address \<open>fid\<close>, an event loop by
  \<open>lid\<close>, a timer handle returned by \<open>call_later\<close> by \<open>hid\<close>, and the closure
  environment of one call of \<open>_wait\<close> or \<open>as_completed\<close> by \<open>cid\<close>.
\<close>

type_synonym fid = nat
type_synonym lid = nat
type_synonym hid = nat
type_synonym cid = nat

text \<open>
  Exceptions.  \<open>KeyboardInterrupt\<close> and \<open>SystemExit\<close> derive from \<open>BaseException\<close>
  only; every other one is an \<open>Exception\<close>.  \<open>RecursionLimit\<close> is the error Python
  raises when the call stack is exhausted.
\<close>

datatype exc =
    CancelledError
  | TimeoutError
  | InvalidStateError
  | RuntimeError string
  | ValueError string
  | TypeError string
  | AssertionError
  | AttributeError
  | IndexError
  | KeyError
  | RecursionLimit
  | UserError nat
  | KeyboardInterrupt
  | SystemExit

fun is_Exception :: "exc \<Rightarrow> bool" where
  "is_Exception KeyboardInterrupt = False"
| "is_Exception SystemExit = False"
| "is_Exception e = True"

text \<open>Plain values: what a Future stores as its result and what is sent into a coroutine.\<close>

datatype val =
    VNone
  | VBool bool
  | VInt int
  | VStr string
  | VFut fid
  | VExc exc
  | VList "val list"
  | VTuple "val list"
  | VSet "fid list"
  | VContextManager nat

text \<open>Python truth value of a plain value (used by \<open>if (yield From(waiter))\<close>).\<close>

fun truthy :: "val \<Rightarrow> bool" where
  "truthy VNone = False"
| "truthy (VBool b) = b"
| "truthy (VInt i) = (i \<noteq> 0)"
| "truthy (VStr s) = (s \<noteq> [])"
| "truthy (VList xs) = (xs \<noteq> [])"
| "truthy (VTuple xs) = (xs \<noteq> [])"
| "truthy (VSet xs) = (xs \<noteq> [])"
| "truthy v = True"

text \<open>
  One-argument callables registered with \<open>add_done_callback\<close>, and calls (a callable
  with its arguments) queued on the loop.
\<close>

datatype callback =
    Wakeup fid                \<comment> \<open>the bound method \<open>task._wakeup\<close>\<close>
  | ReleaseWaiterP fid val    \<comment> \<open>\<open>functools.partial(_release_waiter, waiter, value)\<close>\<close>
  | WaitOnCompletion cid      \<comment> \<open>\<open>_on_completion\<close> of one call of \<open>_wait\<close>\<close>
  | GatherDone fid nat        \<comment> \<open>\<open>functools.partial(_done_callback, i)\<close> of the gather with this outer\<close>
  | ShieldDone fid            \<comment> \<open>\<open>_done_callback\<close> of the shield with this outer\<close>
  | AcOnCompletion cid        \<comment> \<open>\<open>_on_completion\<close> of one call of \<open>as_completed\<close>\<close>

datatype call =
    CStep fid val "exc option"  \<comment> \<open>\<open>task._step(value, exc)\<close>\<close>
  | CWakeup fid fid             \<comment> \<open>\<open>task._wakeup(future)\<close>\<close>
  | CReleaseWaiter fid val      \<comment> \<open>\<open>_release_waiter(waiter, value, *args)\<close>\<close>
  | CWaitOnCompletion cid fid
  | CGatherDone fid nat fid
  | CShieldDone fid fid
  | CAcOnCompletion cid fid
  | CAcOnTimeout cid

text \<open>A done-callback is called with the future it was registered on.\<close>

fun apply_cb :: "callback \<Rightarrow> fid \<Rightarrow> call" where
  "apply_cb (Wakeup t) f = CWakeup t f"
| "apply_cb (ReleaseWaiterP waiter v) f = CReleaseWaiter waiter v"
| "apply_cb (WaitOnCompletion c) f = CWaitOnCompletion c f"
| "apply_cb (GatherDone outer i) f = CGatherDone outer i f"
| "apply_cb (ShieldDone outer) f = CShieldDone outer f"
| "apply_cb (AcOnCompletion c) f = CAcOnCompletion c f"

subsection \<open>Coroutines\<close>

text \<open>
  A coroutine is a generator object: it is resumed with \<open>next\<close>, \<open>send(value)\<close> or
  \<open>throw(exc)\<close> and answers by yielding an object, by raising \<open>Return(value)\<close>, by
  finishing (\<open>StopIteration\<close>) or by raising another exception.  A user coroutine is
  opaque: \<open>Gen\<close> carries its behaviour.  The coroutines of tasks.py itself
  (\<open>wait\<close>, \<open>_wait\<close>, \<open>wait_for\<close>, \<open>_wait_for_one\<close>, \<open>_lock_coroutine\<close>) are
  the remaining constructors: a program point with the values of the local variables.

  The objects a coroutine may yield, and the arguments of the combinators, are
  \<open>pyobj\<close>.  The number in \<open>OCoro\<close>, \<open>OFromWrapper\<close> and \<open>OLock\<close> is the identity
  of the object (Python's \<open>id\<close>): generator objects, \<open>FromWrapper\<close> objects and locks
  are hashed by identity in \<open>set(fs)\<close>.  A lock is represented by the coroutine that
  its \<open>acquire()\<close> returns.
\<close>

datatype resume = Next | Send val | Throw exc

datatype fsarg_kind = Single | Collection

datatype coro =
    Gen "resume \<Rightarrow> outcome"
  | LockCoroutine0 nat coro
  | LockCoroutine1 nat
  | WaitFor0 pyobj "real option" "lid option"
  | WaitForDirect
  | WaitFor1 fid hid fid
  | Wait0 fsarg_kind "pyobj list" "lid option" "real option" string
  | Wait1
  | UWait0 "fid list" "real option" string lid
  | UWait1 "fid list" cid
  | WaitForOne0 cid
  | WaitForOne1
  | QueueGet0 cid
  | QueueGet1
and outcome =
    Yielded pyobj coro
  | ReturnExc val
  | StopIteration
  | Raised exc
and pyobj =
    ONone
  | OFut fid
  | OCoro nat coro
  | OFromWrapper nat pyobj
  | OLock nat coro
  | OOther val

text \<open>
  Modelled from the spec: \<open>From\<close> (module coroutines, not among the sources) wraps
  the awaited object in a wrapper value that signals the await.
\<close>

definition From :: "pyobj \<Rightarrow> pyobj" where
  "From obj = OFromWrapper 0 obj"

text \<open>Identity of two objects, as \<open>set\<close> and \<open>dict\<close> see it.\<close>

fun same_obj :: "pyobj \<Rightarrow> pyobj \<Rightarrow> bool" where
  "same_obj ONone ONone = True"
| "same_obj (OFut f) (OFut g) = (f = g)"
| "same_obj (OCoro i c) (OCoro j d) = (i = j)"
| "same_obj (OFromWrapper i x) (OFromWrapper j y) = (i = j)"
| "same_obj (OLock i c) (OLock j d) = (i = j)"
| "same_obj (OOther v) (OOther u) = (v = u)"
| "same_obj x y = False"

text \<open>
  \<open>set(xs)\<close> for a list of objects.  The iteration order of a Python set is not
  specified; the model iterates in the order of first occurrence.
\<close>

fun set_of_objs :: "pyobj list \<Rightarrow> pyobj list" where
  "set_of_objs [] = []"
| "set_of_objs (x # xs) = x # filter (\<lambda>y. \<not> same_obj x y) (set_of_objs xs)"

subsection \<open>The heap and the loop\<close>

datatype fstate = PENDING | CANCELLED | FINISHED

record future =
  f_state :: fstate
  f_result :: val
  f_exception :: "exc option"
  f_callbacks :: "callback list"
  f_loop :: lid
  f_unobserved :: bool

record task =
  t_coro :: coro
  t_fut_waiter :: "fid option"
  t_must_cancel :: bool

text \<open>
  The closure of one \<open>gather\<close> call, with the \<open>_children\<close> of its
  \<open>_GatheringFuture\<close>; the closures of one \<open>_wait\<close> and one \<open>as_completed\<close>
  call (\<open>ac_done\<close> is the queue \<open>done\<close>: its items, \<open>None\<close> being the dummy value,
  and the futures of the blocked \<open>get()\<close> calls).
\<close>

record gather_env =
  g_children :: "fid list"
  g_return_exceptions :: bool
  g_n :: nat
  g_nfinished :: nat
  g_results :: "val list"

record wait_env =
  w_counter :: int
  w_return_when :: string
  w_timeout_handle :: "hid option"
  w_waiter :: fid

record ac_env =
  ac_todo :: "fid list"
  ac_done :: "fid option list"
  ac_getters :: "fid list"
  ac_timeout_handle :: "hid option"
  ac_loop :: lid

record timer =
  tm_loop :: lid
  tm_delay :: real
  tm_call :: call
  tm_cancelled :: bool

text \<open>
  The state of the program: the heap of futures with the next free address, the fields
  that a Task adds to its Future, the closures, the queue of \<open>call_soon\<close>, the timers
  of \<open>call_later\<close>, the class attributes \<open>Task._current_tasks\<close> and
  \<open>Task._all_tasks\<close>, the loop that \<open>get_event_loop()\<close> returns, and the flag
  \<open>coroutines._DEBUG\<close>.
\<close>

record world =
  futures :: "fid \<Rightarrow> future"
  next_fid :: fid
  tasks :: "fid \<Rightarrow> task option"
  gathers :: "fid \<Rightarrow> gather_env option"
  waits :: "cid \<Rightarrow> wait_env"
  next_wait :: cid
  acs :: "cid \<Rightarrow> ac_env"
  next_ac :: cid
  ready :: "(lid \<times> call) list"
  timers :: "hid \<Rightarrow> timer"
  next_hid :: hid
  current_tasks :: "lid \<Rightarrow> fid option"
  all_tasks :: "fid list"
  current_loop :: lid
  debug :: bool

section \<open>The loop port and Future\<close>

text \<open>
  Modelled from the spec: the event loop (module events and the loop classes are not
  among the sources).  \<open>call_soon(cb, *args)\<close> enqueues for the next turn, FIFO;
  tasks.py never keeps the handle that \<open>call_soon\<close> returns.
  \<open>call_later(delay, cb, *args)\<close> arms a timer and returns its handle;
  \<open>Handle.cancel()\<close> is idempotent.  \<open>get_event_loop()\<close> is the current loop.
\<close>

definition call_soon :: "lid \<Rightarrow> call \<Rightarrow> world \<Rightarrow> world" where
  "call_soon l c w = w\<lparr>ready := ready w @ [(l, c)]\<rparr>"

definition call_later :: "lid \<Rightarrow> real \<Rightarrow> call \<Rightarrow> world \<Rightarrow> hid \<times> world" where
  "call_later l d c w =
     (next_hid w,
      w\<lparr>timers := (timers w)(next_hid w :=
           \<lparr>tm_loop = l, tm_delay = d, tm_call = c, tm_cancelled = False\<rparr>),
        next_hid := Suc (next_hid w)\<rparr>)"

definition handle_cancel :: "hid \<Rightarrow> world \<Rightarrow> world" where
  "handle_cancel h w = w\<lparr>timers := (timers w)(h := (timers w h)\<lparr>tm_cancelled := True\<rparr>)\<rparr>"

definition get_event_loop :: "world \<Rightarrow> lid" where
  "get_event_loop w = current_loop w"

text \<open>
  Modelled from the spec: class Future (module futures is not among the sources),
  section 4.1.  A Future is Pending, Finished with a value, Finished with an error, or
  Cancelled; completing it hands every registered callback to \<open>call_soon\<close>, in
  registration order, and each fires once, so the list is emptied.  Observing the result
  or the exception clears the flag of the unobserved exception.
\<close>

definition fut :: "world \<Rightarrow> fid \<Rightarrow> future" where
  "fut w f = futures w f"

definition upd_fut :: "fid \<Rightarrow> (future \<Rightarrow> future) \<Rightarrow> world \<Rightarrow> world" where
  "upd_fut f g w = w\<lparr>futures := (futures w)(f := g (futures w f))\<rparr>"

definition Future_done :: "world \<Rightarrow> fid \<Rightarrow> bool" where
  "Future_done w f = (f_state (fut w f) \<noteq> PENDING)"

definition Future_cancelled :: "world \<Rightarrow> fid \<Rightarrow> bool" where
  "Future_cancelled w f = (f_state (fut w f) = CANCELLED)"

definition Future_init :: "lid option \<Rightarrow> world \<Rightarrow> fid \<times> world" where
  "Future_init loop w =
     (let l = (case loop of None \<Rightarrow> get_event_loop w | Some l \<Rightarrow> l);
          f = next_fid w
      in (f, w\<lparr>futures := (futures w)(f :=
                  \<lparr>f_state = PENDING, f_result = VNone, f_exception = None,
                   f_callbacks = [], f_loop = l, f_unobserved = False\<rparr>),
               next_fid := Suc f\<rparr>))"

definition schedule_callbacks :: "fid \<Rightarrow> world \<Rightarrow> world" where
  "schedule_callbacks f w =
     (upd_fut f (\<lambda>x. x\<lparr>f_callbacks := []\<rparr>) w)
       \<lparr>ready := ready w @ map (\<lambda>cb. (f_loop (fut w f), apply_cb cb f)) (f_callbacks (fut w f))\<rparr>"

definition Future_cancel :: "fid \<Rightarrow> world \<Rightarrow> bool \<times> world" where
  "Future_cancel f w =
     (if f_state (fut w f) \<noteq> PENDING then (False, w)
      else (True, schedule_callbacks f (upd_fut f (\<lambda>x. x\<lparr>f_state := CANCELLED\<rparr>) w)))"

definition set_result :: "fid \<Rightarrow> val \<Rightarrow> world \<Rightarrow> exc + world" where
  "set_result f v w =
     (if f_state (fut w f) \<noteq> PENDING then Inl InvalidStateError
      else Inr (schedule_callbacks f
                  (upd_fut f (\<lambda>x. x\<lparr>f_result := v, f_state := FINISHED\<rparr>) w)))"

definition set_exception :: "fid \<Rightarrow> exc \<Rightarrow> world \<Rightarrow> exc + world" where
  "set_exception f e w =
     (if f_state (fut w f) \<noteq> PENDING then Inl InvalidStateError
      else Inr (schedule_callbacks f
                  (upd_fut f (\<lambda>x. x\<lparr>f_exception := Some e, f_unobserved := True,
                                     f_state := FINISHED\<rparr>) w)))"

text \<open>\<open>result()\<close> and \<open>exception()\<close>: the value returned or the exception raised, and the heap.\<close>

definition Future_result :: "fid \<Rightarrow> world \<Rightarrow> (exc + val) \<times> world" where
  "Future_result f w =
     (case f_state (fut w f) of
        CANCELLED \<Rightarrow> (Inl CancelledError, w)
      | PENDING \<Rightarrow> (Inl InvalidStateError, w)
      | FINISHED \<Rightarrow>
          (case f_exception (fut w f) of
             Some e \<Rightarrow> (Inl e, upd_fut f (\<lambda>x. x\<lparr>f_unobserved := False\<rparr>) w)
           | None \<Rightarrow> (Inr (f_result (fut w f)), upd_fut f (\<lambda>x. x\<lparr>f_unobserved := False\<rparr>) w)))"

definition Future_exception :: "fid \<Rightarrow> world \<Rightarrow> (exc + exc option) \<times> world" where
  "Future_exception f w =
     (case f_state (fut w f) of
        CANCELLED \<Rightarrow> (Inl CancelledError, w)
      | PENDING \<Rightarrow> (Inl InvalidStateError, w)
      | FINISHED \<Rightarrow> (Inr (f_exception (fut w f)), upd_fut f (\<lambda>x. x\<lparr>f_unobserved := False\<rparr>) w))"

definition add_done_callback :: "fid \<Rightarrow> callback \<Rightarrow> world \<Rightarrow> world" where
  "add_done_callback f cb w =
     (if f_state (fut w f) \<noteq> PENDING then call_soon (f_loop (fut w f)) (apply_cb cb f) w
      else upd_fut f (\<lambda>x. x\<lparr>f_callbacks := f_callbacks x @ [cb]\<rparr>) w)"

definition remove_done_callback :: "fid \<Rightarrow> callback \<Rightarrow> world \<Rightarrow> nat \<times> world" where
  "remove_done_callback f cb w =
     (length (filter (\<lambda>c. c = cb) (f_callbacks (fut w f))),
      upd_fut f (\<lambda>x. x\<lparr>f_callbacks := filter (\<lambda>c. c \<noteq> cb) (f_callbacks x)\<rparr>) w)"

text \<open>
  \<open>isinstance(x, futures.Future)\<close>: the object is a reference to a Future that exists
  (an address not yet allocated denotes no object).
\<close>

definition is_future :: "world \<Rightarrow> fid \<Rightarrow> bool" where
  "is_future w f = (f < next_fid w)"

section \<open>Task\<close>

definition the_task :: "world \<Rightarrow> fid \<Rightarrow> task" where
  "the_task w t = (case tasks w t of Some x \<Rightarrow> x
     | None \<Rightarrow> \<lparr>t_coro = Gen (\<lambda>r. StopIteration), t_fut_waiter = None, t_must_cancel = False\<rparr>)"

definition upd_task :: "fid \<Rightarrow> (task \<Rightarrow> task) \<Rightarrow> world \<Rightarrow> world" where
  "upd_task t g w = w\<lparr>tasks := (tasks w)(t := Some (g (the_task w t)))\<rparr>"

text \<open>
  \<open>Task.__init__(coro, loop)\<close>.  The assertion \<open>iscoroutine(coro)\<close> holds by the type
  of the argument.
\<close>

definition Task_init :: "coro \<Rightarrow> lid option \<Rightarrow> world \<Rightarrow> fid \<times> world" where
  "Task_init co loop w =
     (let (t, w1) = Future_init loop w;
          w2 = w1\<lparr>tasks := (tasks w1)(t :=
                  Some \<lparr>t_coro = co, t_fut_waiter = None, t_must_cancel = False\<rparr>)\<rparr>;
          w3 = call_soon (f_loop (fut w2 t)) (CStep t VNone None) w2
      in (t, w3\<lparr>all_tasks := all_tasks w3 @ [t]\<rparr>))"

text \<open>
  \<open>cancel()\<close>, dispatched on the class of the object: \<open>Task.cancel\<close>,
  \<open>_GatheringFuture.cancel\<close> or \<open>Future.cancel\<close>.  A task cancels the future it
  waits for, which may be a task again, and a gathering future cancels its children: the
  first argument bounds the depth of the call stack, and \<open>RecursionLimit\<close> is raised when
  it is used up.
\<close>

fun cancel :: "nat \<Rightarrow> fid \<Rightarrow> world \<Rightarrow> (exc + bool) \<times> world"
and cancel_children :: "nat \<Rightarrow> fid list \<Rightarrow> world \<Rightarrow> (exc + unit) \<times> world" where
  "cancel 0 f w = (Inl RecursionLimit, w)"
| "cancel (Suc n) f w =
     (case tasks w f of
        Some t \<Rightarrow>
          if Future_done w f then (Inr False, w)
          else (case t_fut_waiter t of
                  Some fw \<Rightarrow>
                    (case cancel n fw w of
                       (Inl e, w') \<Rightarrow> (Inl e, w')
                     | (Inr True, w') \<Rightarrow> (Inr True, w')
                     | (Inr False, w') \<Rightarrow>
                         (Inr True, upd_task f (\<lambda>x. x\<lparr>t_must_cancel := True\<rparr>) w'))
                | None \<Rightarrow> (Inr True, upd_task f (\<lambda>x. x\<lparr>t_must_cancel := True\<rparr>) w))
      | None \<Rightarrow>
          (case gathers w f of
             Some g \<Rightarrow>
               if Future_done w f then (Inr False, w)
               else (case cancel_children n (g_children g) w of
                       (Inl e, w') \<Rightarrow> (Inl e, w')
                     | (Inr u, w') \<Rightarrow> (Inr True, w'))
           | None \<Rightarrow> (case Future_cancel f w of (b, w') \<Rightarrow> (Inr b, w'))))"
| "cancel_children n [] w = (Inr (), w)"
| "cancel_children n (c # cs) w =
     (case cancel n c w of
        (Inl e, w') \<Rightarrow> (Inl e, w')
      | (Inr b, w') \<Rightarrow> cancel_children n cs w')"


text \<open>
  \<open>async(coro_or_future, loop)\<close>.  On the coroutine branch the world is the one
  after \<open>Task(coro, loop=loop)\<close>.
\<close>

definition async :: "pyobj \<Rightarrow> lid option \<Rightarrow> world \<Rightarrow> (exc + fid) \<times> world" where
  "async coro_or_future loop w =
     (let x = (case coro_or_future of OFromWrapper i obj \<Rightarrow> obj | y \<Rightarrow> y)
      in case x of
           OFut f \<Rightarrow>
             if is_future w f then
               (if loop \<noteq> None \<and> loop \<noteq> Some (f_loop (fut w f))
                then (Inl (ValueError ''loop argument must agree with Future''), w)
                else (Inr f, w))
             else (Inl (TypeError ''A Future or coroutine is required''), w)
         | OCoro i c \<Rightarrow> (case Task_init c loop w of (t, w') \<Rightarrow> (Inr t, w'))
         | y \<Rightarrow> (Inl (TypeError ''A Future or coroutine is required''), w))"

text \<open>\<open>async(f, loop=loop) for f in xs\<close>, left to right, stopping at the first exception.\<close>

fun lift_all :: "pyobj list \<Rightarrow> lid option \<Rightarrow> world \<Rightarrow> (exc + fid list) \<times> world" where
  "lift_all [] loop w = (Inr [], w)"
| "lift_all (x # xs) loop w =
     (case async x loop w of
        (Inl e, w1) \<Rightarrow> (Inl e, w1)
      | (Inr f, w1) \<Rightarrow>
          (case lift_all xs loop w1 of
             (Inl e, w2) \<Rightarrow> (Inl e, w2)
           | (Inr fs, w2) \<Rightarrow> (Inr (f # fs), w2)))"

section \<open>The coroutines of tasks.py\<close>

text \<open>
  A generator that has not started runs its body on \<open>next\<close> (or \<open>send(None)\<close>),
  refuses another value and raises at once what is thrown into it.
\<close>

definition unstarted :: "resume \<Rightarrow> (world \<Rightarrow> outcome \<times> world) \<Rightarrow> world \<Rightarrow> outcome \<times> world" where
  "unstarted r body w =
     (case r of
        Next \<Rightarrow> body w
      | Send v \<Rightarrow>
          if v = VNone then body w
          else (Raised (TypeError ''cannot send non-None value to a just-started generator''), w)
      | Throw e \<Rightarrow> (Raised e, w))"

text \<open>A generator suspended in \<open>x = yield ...\<close> with no \<open>try\<close> around it.\<close>

definition resumed_value :: "resume \<Rightarrow> exc + val" where
  "resumed_value r = (case r of Next \<Rightarrow> Inr VNone | Send v \<Rightarrow> Inr v | Throw e \<Rightarrow> Inl e)"

subsection \<open>\<open>wait_for\<close>\<close>

definition wait_for_start :: "pyobj \<Rightarrow> real option \<Rightarrow> lid option \<Rightarrow> world \<Rightarrow> outcome \<times> world" where
  "wait_for_start fu timeout loop w =
     (let l = (case loop of None \<Rightarrow> get_event_loop w | Some l \<Rightarrow> l)
      in case timeout of
           None \<Rightarrow> (Yielded (From fu) WaitForDirect, w)
         | Some d \<Rightarrow>
             (let (waiter, w1) = Future_init (Some l) w;
                  (timeout_handle, w2) = call_later l d (CReleaseWaiter waiter (VBool False)) w1
              in case async fu (Some l) w2 of
                   (Inl e, w3) \<Rightarrow> (Raised e, w3)
                 | (Inr f, w3) \<Rightarrow>
                     (Yielded (From (OFut waiter)) (WaitFor1 waiter timeout_handle f),
                      add_done_callback f (ReleaseWaiterP waiter (VBool True)) w3)))"

definition wait_for_resume :: "nat \<Rightarrow> fid \<Rightarrow> hid \<Rightarrow> fid \<Rightarrow> resume \<Rightarrow> world \<Rightarrow> outcome \<times> world" where
  "wait_for_resume n waiter timeout_handle f r w =
     (case resumed_value r of
        Inl e \<Rightarrow> (Raised e, handle_cancel timeout_handle w)
      | Inr v \<Rightarrow>
          if truthy v then
            (case Future_result f w of
               (Inl e, w1) \<Rightarrow> (Raised e, handle_cancel timeout_handle w1)
             | (Inr x, w1) \<Rightarrow> (ReturnExc x, handle_cancel timeout_handle w1))
          else
            (let (k, w1) = remove_done_callback f (ReleaseWaiterP waiter (VBool True)) w
             in case cancel n f w1 of
                  (Inl e, w2) \<Rightarrow> (Raised e, handle_cancel timeout_handle w2)
                | (Inr b, w2) \<Rightarrow> (Raised TimeoutError, handle_cancel timeout_handle w2)))"

subsection \<open>\<open>_release_waiter\<close>\<close>

definition release_waiter :: "fid \<Rightarrow> val \<Rightarrow> world \<Rightarrow> exc option \<times> world" where
  "release_waiter waiter v w =
     (if \<not> Future_done w waiter then
        (case set_result waiter v w of Inl e \<Rightarrow> (Some e, w) | Inr w' \<Rightarrow> (None, w'))
      else (None, w))"

subsection \<open>\<open>wait\<close> and \<open>_wait\<close>\<close>

text \<open>
  Modelled from the spec: the constants of module executor (not among the sources)
  that name the three modes of \<open>wait\<close>.
\<close>

definition FIRST_COMPLETED :: string where "FIRST_COMPLETED = ''FIRST_COMPLETED''"
definition FIRST_EXCEPTION :: string where "FIRST_EXCEPTION = ''FIRST_EXCEPTION''"
definition ALL_COMPLETED :: string where "ALL_COMPLETED = ''ALL_COMPLETED''"

definition wait_start ::
  "fsarg_kind \<Rightarrow> pyobj list \<Rightarrow> lid option \<Rightarrow> real option \<Rightarrow> string \<Rightarrow> world \<Rightarrow> outcome \<times> world" where
  "wait_start kind fs loop timeout return_when w =
     (if kind = Single then (Raised (TypeError ''expect a list of futures''), w)
      else if fs = [] then (Raised (ValueError ''Set of coroutines/Futures is empty.''), w)
      else
        (let l = (case loop of None \<Rightarrow> get_event_loop w | Some l \<Rightarrow> l)
         in case lift_all (set_of_objs fs) (Some l) w of
              (Inl e, w1) \<Rightarrow> (Raised e, w1)
            | (Inr lifted, w1) \<Rightarrow>
                if return_when \<notin> {FIRST_COMPLETED, FIRST_EXCEPTION, ALL_COMPLETED}
                then (Raised (ValueError ''Invalid return_when value''), w1)
                else (Yielded (From (OCoro 0 (UWait0 (remdups lifted) timeout return_when l))) Wait1,
                      w1)))"

definition uwait_start :: "fid list \<Rightarrow> real option \<Rightarrow> string \<Rightarrow> lid \<Rightarrow> world \<Rightarrow> outcome \<times> world" where
  "uwait_start fs timeout return_when l w =
     (if fs = [] then (Raised AssertionError, w)
      else
        (let (waiter, w1) = Future_init (Some l) w;
             (timeout_handle, w2) =
               (case timeout of
                  None \<Rightarrow> (None, w1)
                | Some d \<Rightarrow>
                    (case call_later l d (CReleaseWaiter waiter (VBool True)) w1 of
                       (h, w') \<Rightarrow> (Some h, w')));
             c = next_wait w2;
             w3 = w2\<lparr>waits := (waits w2)(c :=
                      \<lparr>w_counter = int (length fs), w_return_when = return_when,
                       w_timeout_handle = timeout_handle, w_waiter = waiter\<rparr>),
                    next_wait := Suc c\<rparr>;
             w4 = fold (\<lambda>f. add_done_callback f (WaitOnCompletion c)) fs w3
         in (Yielded (From (OFut waiter)) (UWait1 fs c), w4)))"

text \<open>The closure \<open>_on_completion(f)\<close> of \<open>_wait\<close>.\<close>

definition uwait_release :: "cid \<Rightarrow> world \<Rightarrow> exc option \<times> world" where
  "uwait_release c w =
     (let env = waits w c;
          w1 = (case w_timeout_handle env of None \<Rightarrow> w | Some h \<Rightarrow> handle_cancel h w)
      in if \<not> Future_done w1 (w_waiter env) then
           (case set_result (w_waiter env) (VBool False) w1 of
              Inl e \<Rightarrow> (Some e, w1)
            | Inr w2 \<Rightarrow> (None, w2))
         else (None, w1))"

definition uwait_on_completion :: "cid \<Rightarrow> fid \<Rightarrow> world \<Rightarrow> exc option \<times> world" where
  "uwait_on_completion c f w =
     (let env = waits w c;
          counter = w_counter env - 1;
          w1 = w\<lparr>waits := (waits w)(c := env\<lparr>w_counter := counter\<rparr>)\<rparr>
      in if counter \<le> 0 \<or> w_return_when env = FIRST_COMPLETED then uwait_release c w1
         else if w_return_when env = FIRST_EXCEPTION \<and> \<not> Future_cancelled w1 f then
           (case Future_exception f w1 of
              (Inl e, w2) \<Rightarrow> (Some e, w2)
            | (Inr None, w2) \<Rightarrow> (None, w2)
            | (Inr (Some x), w2) \<Rightarrow> uwait_release c w2)
         else (None, w1))"

text \<open>The last loop of \<open>_wait\<close>: the callback is removed and the futures are sorted.\<close>

fun uwait_collect ::
  "callback \<Rightarrow> fid list \<Rightarrow> fid list \<Rightarrow> fid list \<Rightarrow> world \<Rightarrow> (fid list \<times> fid list) \<times> world" where
  "uwait_collect cb [] dn pending w = ((dn, pending), w)"
| "uwait_collect cb (f # fs) dn pending w =
     (case remove_done_callback f cb w of
        (k, w1) \<Rightarrow>
          if Future_done w1 f then uwait_collect cb fs (dn @ [f]) pending w1
          else uwait_collect cb fs dn (pending @ [f]) w1)"

definition uwait_resume :: "fid list \<Rightarrow> cid \<Rightarrow> resume \<Rightarrow> world \<Rightarrow> outcome \<times> world" where
  "uwait_resume fs c r w =
     (let w1 = (case w_timeout_handle (waits w c) of None \<Rightarrow> w | Some h \<Rightarrow> handle_cancel h w)
      in case resumed_value r of
           Inl e \<Rightarrow> (Raised e, w1)
         | Inr v \<Rightarrow>
             (case uwait_collect (WaitOnCompletion c) fs [] [] w1 of
                ((dn, pending), w2) \<Rightarrow> (ReturnExc (VTuple [VSet dn, VSet pending]), w2)))"


subsection \<open>\<open>as_completed\<close>\<close>

text \<open>
  Modelled from the spec: the queue \<open>done\<close> (module queues is not among the
  sources) is a FIFO.  \<open>put_nowait\<close> hands the item to the oldest blocked \<open>get()\<close>
  if there is one and appends it otherwise; \<open>get()\<close> is a coroutine that takes the
  oldest item, waiting on a fresh Future while the queue is empty.
\<close>

definition item_val :: "fid option \<Rightarrow> val" where
  "item_val x = (case x of None \<Rightarrow> VNone | Some f \<Rightarrow> VFut f)"

definition upd_ac :: "cid \<Rightarrow> (ac_env \<Rightarrow> ac_env) \<Rightarrow> world \<Rightarrow> world" where
  "upd_ac c g w = w\<lparr>acs := (acs w)(c := g (acs w c))\<rparr>"

definition put_nowait :: "cid \<Rightarrow> fid option \<Rightarrow> world \<Rightarrow> exc option \<times> world" where
  "put_nowait c x w =
     (case ac_getters (acs w c) of
        [] \<Rightarrow> (None, upd_ac c (\<lambda>e. e\<lparr>ac_done := ac_done e @ [x]\<rparr>) w)
      | g # gs \<Rightarrow>
          (case set_result g (item_val x) (upd_ac c (\<lambda>e. e\<lparr>ac_getters := gs\<rparr>) w) of
             Inl e \<Rightarrow> (Some e, upd_ac c (\<lambda>e. e\<lparr>ac_getters := gs\<rparr>) w)
           | Inr w' \<Rightarrow> (None, w')))"

definition queue_get_start :: "cid \<Rightarrow> world \<Rightarrow> outcome \<times> world" where
  "queue_get_start c w =
     (case ac_done (acs w c) of
        x # xs \<Rightarrow> (ReturnExc (item_val x), upd_ac c (\<lambda>e. e\<lparr>ac_done := xs\<rparr>) w)
      | [] \<Rightarrow>
          (case Future_init (Some (ac_loop (acs w c))) w of
             (g, w1) \<Rightarrow>
               (Yielded (From (OFut g)) QueueGet1,
                upd_ac c (\<lambda>e. e\<lparr>ac_getters := ac_getters e @ [g]\<rparr>) w1)))"

text \<open>The closures \<open>_on_timeout()\<close> and \<open>_on_completion(f)\<close> of \<open>as_completed\<close>.\<close>

fun ac_timeout_loop :: "cid \<Rightarrow> fid list \<Rightarrow> world \<Rightarrow> exc option \<times> world" where
  "ac_timeout_loop c [] w = (None, w)"
| "ac_timeout_loop c (f # fs) w =
     (case remove_done_callback f (AcOnCompletion c) w of
        (k, w1) \<Rightarrow>
          (case put_nowait c None w1 of
             (Some e, w2) \<Rightarrow> (Some e, w2)
           | (None, w2) \<Rightarrow> ac_timeout_loop c fs w2))"

definition ac_on_timeout :: "cid \<Rightarrow> world \<Rightarrow> exc option \<times> world" where
  "ac_on_timeout c w =
     (case ac_timeout_loop c (ac_todo (acs w c)) w of
        (Some e, w1) \<Rightarrow> (Some e, w1)
      | (None, w1) \<Rightarrow> (None, upd_ac c (\<lambda>e. e\<lparr>ac_todo := []\<rparr>) w1))"

definition ac_on_completion :: "cid \<Rightarrow> fid \<Rightarrow> world \<Rightarrow> exc option \<times> world" where
  "ac_on_completion c f w =
     (if ac_todo (acs w c) = [] then (None, w)
      else if f \<notin> set (ac_todo (acs w c)) then (Some KeyError, w)
      else
        (case put_nowait c (Some f) (upd_ac c (\<lambda>e. e\<lparr>ac_todo := removeAll f (ac_todo e)\<rparr>) w) of
           (Some e, w1) \<Rightarrow> (Some e, w1)
         | (None, w1) \<Rightarrow>
             if ac_todo (acs w1 c) = [] \<and> ac_timeout_handle (acs w1 c) \<noteq> None
             then (None, handle_cancel (the (ac_timeout_handle (acs w1 c))) w1)
             else (None, w1)))"

text \<open>The coroutine \<open>_wait_for_one()\<close>, resumed with the item that \<open>done.get()\<close> returned.\<close>

definition wait_for_one_resume :: "resume \<Rightarrow> world \<Rightarrow> outcome \<times> world" where
  "wait_for_one_resume r w =
     (case resumed_value r of
        Inl e \<Rightarrow> (Raised e, w)
      | Inr v \<Rightarrow>
          (case v of
             VNone \<Rightarrow> (Raised TimeoutError, w)
           | VFut f \<Rightarrow>
               (case Future_result f w of
                  (Inl e, w1) \<Rightarrow> (Raised e, w1)
                | (Inr x, w1) \<Rightarrow> (ReturnExc x, w1))
           | u \<Rightarrow> (Raised AttributeError, w)))"

text \<open>
  \<open>as_completed(fs, loop, timeout)\<close> is a generator: the model runs it to its end and
  returns the objects it yields, one fresh \<open>_wait_for_one()\<close> coroutine for each turn of
  \<open>for _ in range(len(todo))\<close>.
\<close>

definition as_completed ::
  "fsarg_kind \<Rightarrow> pyobj list \<Rightarrow> lid option \<Rightarrow> real option \<Rightarrow> world \<Rightarrow> (exc + pyobj list) \<times> world" where
  "as_completed kind fs loop timeout w =
     (if kind = Single then (Inl (TypeError ''expect a list of futures''), w)
      else
        (let l = (case loop of None \<Rightarrow> get_event_loop w | Some l \<Rightarrow> l)
         in case lift_all (set_of_objs fs) (Some l) w of
              (Inl e, w1) \<Rightarrow> (Inl e, w1)
            | (Inr lifted, w1) \<Rightarrow>
                (let todo = remdups lifted;
                     c = next_ac w1;
                     w2 = w1\<lparr>acs := (acs w1)(c :=
                             \<lparr>ac_todo = todo, ac_done = [], ac_getters = [],
                              ac_timeout_handle = None, ac_loop = l\<rparr>),
                           next_ac := Suc c\<rparr>;
                     w3 = fold (\<lambda>f. add_done_callback f (AcOnCompletion c)) todo w2;
                     w4 = (case timeout of
                             None \<Rightarrow> w3
                           | Some d \<Rightarrow>
                               if todo \<noteq> [] then
                                 (case call_later l d (CAcOnTimeout c) w3 of
                                    (h, w') \<Rightarrow> upd_ac c (\<lambda>e. e\<lparr>ac_timeout_handle := Some h\<rparr>) w')
                               else w3)
                 in (Inr (map (\<lambda>i. From (OCoro i (WaitForOne0 c))) [0..<length todo]), w4))))"

subsection \<open>Resuming a coroutine\<close>

fun resume_coro :: "nat \<Rightarrow> coro \<Rightarrow> resume \<Rightarrow> world \<Rightarrow> outcome \<times> world" where
  "resume_coro n (Gen g) r w = (g r, w)"
| "resume_coro n (LockCoroutine0 i acquire) r w =
     unstarted r (\<lambda>w. (Yielded (From (OCoro 0 acquire)) (LockCoroutine1 i), w)) w"
| "resume_coro n (LockCoroutine1 i) r w =
     (case resumed_value r of Inl e \<Rightarrow> (Raised e, w) | Inr v \<Rightarrow> (ReturnExc (VContextManager i), w))"
| "resume_coro n (WaitFor0 fu timeout loop) r w = unstarted r (wait_for_start fu timeout loop) w"
| "resume_coro n WaitForDirect r w =
     (case resumed_value r of Inl e \<Rightarrow> (Raised e, w) | Inr v \<Rightarrow> (ReturnExc v, w))"
| "resume_coro n (WaitFor1 waiter timeout_handle f) r w = wait_for_resume n waiter timeout_handle f r w"
| "resume_coro n (Wait0 kind fs loop timeout return_when) r w =
     unstarted r (wait_start kind fs loop timeout return_when) w"
| "resume_coro n Wait1 r w =
     (case resumed_value r of Inl e \<Rightarrow> (Raised e, w) | Inr v \<Rightarrow> (ReturnExc v, w))"
| "resume_coro n (UWait0 fs timeout return_when l) r w =
     unstarted r (uwait_start fs timeout return_when l) w"
| "resume_coro n (UWait1 fs c) r w = uwait_resume fs c r w"
| "resume_coro n (WaitForOne0 c) r w =
     unstarted r (\<lambda>w. (Yielded (From (OCoro 0 (QueueGet0 c))) WaitForOne1, w)) w"
| "resume_coro n WaitForOne1 r w = wait_for_one_resume r w"
| "resume_coro n (QueueGet0 c) r w = unstarted r (queue_get_start c) w"
| "resume_coro n QueueGet1 r w =
     (case resumed_value r of Inl e \<Rightarrow> (Raised e, w) | Inr v \<Rightarrow> (ReturnExc v, w))"

section \<open>\<open>Task._step\<close> and \<open>Task._wakeup\<close>\<close>

definition step_exc :: "bool \<Rightarrow> exc option \<Rightarrow> exc option" where
  "step_exc must_cancel exc =
     (if must_cancel then (if exc = Some CancelledError then exc else Some CancelledError)
      else exc)"

definition resume_mode :: "val \<Rightarrow> exc option \<Rightarrow> resume" where
  "resume_mode v exc =
     (case exc of Some e \<Rightarrow> Throw e | None \<Rightarrow> if v \<noteq> VNone then Send v else Next)"

text \<open>The \<open>else\<close> branch of \<open>_step\<close>: the coroutine has yielded \<open>r\<close>.\<close>

definition step_await :: "nat \<Rightarrow> fid \<Rightarrow> fid \<Rightarrow> world \<Rightarrow> exc option \<times> world" where
  "step_await n t f w =
     (let w1 = add_done_callback f (Wakeup t) w;
          w2 = upd_task t (\<lambda>x. x\<lparr>t_fut_waiter := Some f\<rparr>) w1
      in if t_must_cancel (the_task w2 t) then
           (case cancel n f w2 of
              (Inl e, w3) \<Rightarrow> (Some e, w3)
            | (Inr True, w3) \<Rightarrow> (None, upd_task t (\<lambda>x. x\<lparr>t_must_cancel := False\<rparr>) w3)
            | (Inr False, w3) \<Rightarrow> (None, w3))
         else (None, w2))"

definition step_yielded :: "nat \<Rightarrow> fid \<Rightarrow> pyobj \<Rightarrow> world \<Rightarrow> exc option \<times> world" where
  "step_yielded n t r w =
     (let l = f_loop (fut w t)
      in if debug w \<and> (case r of OFromWrapper i x \<Rightarrow> False | y \<Rightarrow> True) then
           (None, call_soon l (CStep t VNone (Some (RuntimeError ''yield used without From''))) w)
         else
           (case (case r of OFromWrapper i x \<Rightarrow> x | y \<Rightarrow> y) of
              OCoro i c \<Rightarrow>
                (case async (OCoro i c) (Some l) w of
                   (Inl e, w1) \<Rightarrow> (Some e, w1)
                 | (Inr f, w1) \<Rightarrow> step_await n t f w1)
            | OLock i acquire \<Rightarrow>
                (case Task_init (LockCoroutine0 i acquire) (Some l) w of
                   (f, w1) \<Rightarrow> step_await n t f w1)
            | OFut f \<Rightarrow>
                if is_future w f then step_await n t f w
                else (None, call_soon l (CStep t VNone (Some (RuntimeError ''Task got bad yield''))) w)
            | ONone \<Rightarrow> (None, call_soon l (CStep t VNone None) w)
            | y \<Rightarrow> (None, call_soon l (CStep t VNone (Some (RuntimeError ''Task got bad yield''))) w)))"

text \<open>
  \<open>_step(value, exc)\<close>: the exception that leaves the method, if any, and the state.
  The \<open>finally\<close> clause runs on every path but the failed assertion.
\<close>

definition Task_step :: "nat \<Rightarrow> fid \<Rightarrow> val \<Rightarrow> exc option \<Rightarrow> world \<Rightarrow> exc option \<times> world" where
  "Task_step n t v exc w =
     (if Future_done w t then (Some AssertionError, w)
      else
        (let exc1 = step_exc (t_must_cancel (the_task w t)) exc;
             w1 = (if t_must_cancel (the_task w t)
                   then upd_task t (\<lambda>x. x\<lparr>t_must_cancel := False\<rparr>) w else w);
             co = t_coro (the_task w1 t);
             w2 = upd_task t (\<lambda>x. x\<lparr>t_fut_waiter := None\<rparr>) w1;
             l = f_loop (fut w2 t);
             w3 = w2\<lparr>current_tasks := (current_tasks w2)(l \<mapsto> t)\<rparr>;
             (out, w4) = resume_coro n co (resume_mode v exc1) w3;
             (raised, w5) =
               (case out of
                  ReturnExc x \<Rightarrow>
                    (case set_result t x w4 of Inl e \<Rightarrow> (Some e, w4) | Inr w' \<Rightarrow> (None, w'))
                | StopIteration \<Rightarrow>
                    (case set_result t VNone w4 of Inl e \<Rightarrow> (Some e, w4) | Inr w' \<Rightarrow> (None, w'))
                | Raised e \<Rightarrow>
                    if e = CancelledError then (None, snd (Future_cancel t w4))
                    else
                      (case set_exception t e w4 of
                         Inl e' \<Rightarrow> (Some e', w4)
                       | Inr w' \<Rightarrow> (if is_Exception e then None else Some e, w'))
                | Yielded r co' \<Rightarrow> step_yielded n t r (upd_task t (\<lambda>x. x\<lparr>t_coro := co'\<rparr>) w4))
         in (raised, w5\<lparr>current_tasks := (current_tasks w5)(l := None)\<rparr>)))"

definition Task_wakeup :: "nat \<Rightarrow> fid \<Rightarrow> fid \<Rightarrow> world \<Rightarrow> exc option \<times> world" where
  "Task_wakeup n t f w =
     (case Future_result f w of
        (Inl e, w1) \<Rightarrow> if is_Exception e then Task_step n t VNone (Some e) w1 else (Some e, w1)
      | (Inr v, w1) \<Rightarrow> Task_step n t v None w1)"


section \<open>\<open>gather\<close>\<close>

text \<open>
  \<open>arg_to_fut = dict((arg, async(arg, loop=loop)) for arg in set(coros_or_futures))\<close>
  and \<open>children = [arg_to_fut[arg] for arg in coros_or_futures]\<close>.
\<close>

fun lookup_obj :: "(pyobj \<times> fid) list \<Rightarrow> pyobj \<Rightarrow> fid option" where
  "lookup_obj [] x = None"
| "lookup_obj ((y, f) # ps) x = (if same_obj y x then Some f else lookup_obj ps x)"

definition upd_gather :: "fid \<Rightarrow> (gather_env \<Rightarrow> gather_env) \<Rightarrow> world \<Rightarrow> world" where
  "upd_gather outer g w =
     w\<lparr>gathers := (gathers w)(outer := map_option g (gathers w outer))\<rparr>"

text \<open>
  \<open>gather(*coros_or_futures, loop, return_exceptions)\<close>; \<open>extra_kw\<close> says that another
  keyword argument was passed.
\<close>

definition gather ::
  "pyobj list \<Rightarrow> lid option \<Rightarrow> bool \<Rightarrow> bool \<Rightarrow> world \<Rightarrow> (exc + fid) \<times> world" where
  "gather coros_or_futures loop return_exceptions extra_kw w =
     (if extra_kw then (Inl (TypeError ''unexpected keyword''), w)
      else
        (case lift_all (set_of_objs coros_or_futures) loop w of
           (Inl e, w1) \<Rightarrow> (Inl e, w1)
         | (Inr lifted, w1) \<Rightarrow>
             (let arg_to_fut = zip (set_of_objs coros_or_futures) lifted;
                  children = map (\<lambda>a. the (lookup_obj arg_to_fut a)) coros_or_futures;
                  n = length children
              in if n = 0 then
                   (case Future_init loop w1 of
                      (outer, w2) \<Rightarrow>
                        (case set_result outer (VList []) w2 of
                           Inl e \<Rightarrow> (Inl e, w2)
                         | Inr w3 \<Rightarrow> (Inr outer, w3)))
                 else
                   (let l = (case loop of None \<Rightarrow> f_loop (fut w1 (hd children)) | Some l \<Rightarrow> l)
                    in if \<exists>c \<in> set children. f_loop (fut w1 c) \<noteq> l
                       then (Inl (ValueError ''futures are tied to different event loops''), w1)
                       else
                         (case Future_init (Some l) w1 of
                            (outer, w2) \<Rightarrow>
                              (let w3 = w2\<lparr>gathers := (gathers w2)(outer \<mapsto>
                                          \<lparr>g_children = children,
                                           g_return_exceptions = return_exceptions,
                                           g_n = n, g_nfinished = 0,
                                           g_results = replicate n VNone\<rparr>)\<rparr>;
                                   w4 = fold (\<lambda>(i, c). add_done_callback c (GatherDone outer i))
                                          (enumerate 0 children) w3
                               in (Inr outer, w4)))))))"

text \<open>
  The closure \<open>_done_callback(i, fut)\<close> of \<open>gather\<close>; \<open>g\<close> is the environment of the
  call that made \<open>outer\<close>.
\<close>

definition gather_store :: "fid \<Rightarrow> gather_env \<Rightarrow> nat \<Rightarrow> val \<Rightarrow> world \<Rightarrow> exc option \<times> world" where
  "gather_store outer g i res w =
     (if \<not> i < length (g_results g) then (Some IndexError, w)
      else
        (let g1 = g\<lparr>g_results := (g_results g)[i := res], g_nfinished := g_nfinished g + 1\<rparr>;
             w1 = w\<lparr>gathers := (gathers w)(outer \<mapsto> g1)\<rparr>
         in if g_nfinished g1 = g_n g1 then
              (case set_result outer (VList (g_results g1)) w1 of
                 Inl e \<Rightarrow> (Some e, w1)
               | Inr w2 \<Rightarrow> (None, w2))
            else (None, w1)))"

definition gather_done_callback :: "fid \<Rightarrow> nat \<Rightarrow> fid \<Rightarrow> world \<Rightarrow> exc option \<times> world" where
  "gather_done_callback outer i f w =
     (case gathers w outer of
        None \<Rightarrow> (Some AttributeError, w)
      | Some g \<Rightarrow>
          if f_state (fut w outer) \<noteq> PENDING then
            (if f_exception (fut w f) \<noteq> None then
               (case Future_exception f w of
                  (Inl e, w1) \<Rightarrow> (Some e, w1)
                | (Inr x, w1) \<Rightarrow> (None, w1))
             else (None, w))
          else if f_state (fut w f) = CANCELLED then
            (if \<not> g_return_exceptions g then
               (case set_exception outer CancelledError w of
                  Inl e \<Rightarrow> (Some e, w)
                | Inr w1 \<Rightarrow> (None, w1))
             else gather_store outer g i (VExc CancelledError) w)
          else if f_exception (fut w f) \<noteq> None then
            (case Future_exception f w of
               (Inl e, w1) \<Rightarrow> (Some e, w1)
             | (Inr res, w1) \<Rightarrow>
                 if \<not> g_return_exceptions g then
                   (case set_exception outer (the res) w1 of
                      Inl e \<Rightarrow> (Some e, w1)
                    | Inr w2 \<Rightarrow> (None, w2))
                 else gather_store outer g i (VExc (the res)) w1)
          else gather_store outer g i (f_result (fut w f)) w)"

section \<open>\<open>shield\<close>\<close>

definition shield :: "pyobj \<Rightarrow> lid option \<Rightarrow> world \<Rightarrow> (exc + fid) \<times> world" where
  "shield arg loop w =
     (case async arg loop w of
        (Inl e, w1) \<Rightarrow> (Inl e, w1)
      | (Inr inner, w1) \<Rightarrow>
          if Future_done w1 inner then (Inr inner, w1)
          else
            (case Future_init (Some (f_loop (fut w1 inner))) w1 of
               (outer, w2) \<Rightarrow> (Inr outer, add_done_callback inner (ShieldDone outer) w2)))"

text \<open>The closure \<open>_done_callback(inner)\<close> of \<open>shield\<close>.\<close>

definition shield_done_callback :: "fid \<Rightarrow> fid \<Rightarrow> world \<Rightarrow> exc option \<times> world" where
  "shield_done_callback outer inner w =
     (if Future_cancelled w outer then
        (if Future_cancelled w inner then (None, w)
         else (case Future_exception inner w of
                 (Inl e, w1) \<Rightarrow> (Some e, w1)
               | (Inr x, w1) \<Rightarrow> (None, w1)))
      else if Future_cancelled w inner then (None, snd (Future_cancel outer w))
      else
        (case Future_exception inner w of
           (Inl e, w1) \<Rightarrow> (Some e, w1)
         | (Inr (Some x), w1) \<Rightarrow>
             (case set_exception outer x w1 of Inl e \<Rightarrow> (Some e, w1) | Inr w2 \<Rightarrow> (None, w2))
         | (Inr None, w1) \<Rightarrow>
             (case Future_result inner w1 of
                (Inl e, w2) \<Rightarrow> (Some e, w2)
              | (Inr v, w2) \<Rightarrow>
                  (case set_result outer v w2 of Inl e \<Rightarrow> (Some e, w2) | Inr w3 \<Rightarrow> (None, w3)))))"

section \<open>Running a call of the loop's queue\<close>

definition run_call :: "nat \<Rightarrow> call \<Rightarrow> world \<Rightarrow> exc option \<times> world" where
  "run_call n c w =
     (case c of
        CStep t v e \<Rightarrow> Task_step n t v e w
      | CWakeup t f \<Rightarrow> Task_wakeup n t f w
      | CReleaseWaiter waiter v \<Rightarrow> release_waiter waiter v w
      | CWaitOnCompletion k f \<Rightarrow> uwait_on_completion k f w
      | CGatherDone outer i f \<Rightarrow> gather_done_callback outer i f w
      | CShieldDone outer inner \<Rightarrow> shield_done_callback outer inner w
      | CAcOnCompletion k f \<Rightarrow> ac_on_completion k f w
      | CAcOnTimeout k \<Rightarrow> ac_on_timeout k w)"

text \<open>
  Modelled from the spec: one turn of the loop takes the oldest call of the queue and
  runs it.
\<close>

definition run_once :: "nat \<Rightarrow> world \<Rightarrow> (exc option \<times> world) option" where
  "run_once n w =
     (case ready w of
        [] \<Rightarrow> None
      | (l, c) # rest \<Rightarrow> Some (run_call n c (w\<lparr>ready := rest\<rparr>)))"


section \<open>Example states\<close>

text \<open>
  The state of a fresh interpreter with one event loop (loop 0): no Future has been
  created, nothing is queued.
\<close>

definition initial_world :: world where
  "initial_world =
     \<lparr>futures = (\<lambda>f. \<lparr>f_state = PENDING, f_result = VNone, f_exception = None,
                       f_callbacks = [], f_loop = 0, f_unobserved = False\<rparr>),
      next_fid = 0, tasks = (\<lambda>f. None), gathers = (\<lambda>f. None),
      waits = (\<lambda>c. \<lparr>w_counter = 0, w_return_when = [], w_timeout_handle = None, w_waiter = 0\<rparr>),
      next_wait = 0,
      acs = (\<lambda>c. \<lparr>ac_todo = [], ac_done = [], ac_getters = [], ac_timeout_handle = None,
                   ac_loop = 0\<rparr>),
      next_ac = 0, ready = [],
      timers = (\<lambda>h. \<lparr>tm_loop = 0, tm_delay = 0, tm_call = CAcOnTimeout 0, tm_cancelled = False\<rparr>),
      next_hid = 0, current_tasks = (\<lambda>l. None), all_tasks = [], current_loop = 0,
      debug = False\<rparr>"

text \<open>Two pending Futures, 0 and 1; then Future 0 finished with the value 7.\<close>

definition two_futures :: world where
  "two_futures = snd (Future_init None (snd (Future_init None initial_world)))"

definition finished_future :: world where
  "finished_future = (case set_result 0 (VInt 7) two_futures of Inr w \<Rightarrow> w | Inl e \<Rightarrow> two_futures)"

text \<open>
  \<open>gather(f0, f1)\<close> on the two Futures (the aggregate is Future 2), and what follows
  when child 0 is cancelled, or when child 0 and then child 1 fail.
\<close>

definition gathered :: world where
  "gathered = snd (gather [OFut 0, OFut 1] None False False two_futures)"

definition return_exceptions_of_gathered :: bool where
  "return_exceptions_of_gathered =
     (case gathers gathered 2 of Some g \<Rightarrow> g_return_exceptions g | None \<Rightarrow> True)"

definition child_cancelled :: world where
  "child_cancelled = snd (Future_cancel 0 gathered)"

definition child0_failed :: world where
  "child0_failed = (case set_exception 0 (UserError 1) gathered of Inr w \<Rightarrow> w | Inl e \<Rightarrow> gathered)"

definition outer_failed :: world where
  "outer_failed = snd (gather_done_callback 2 0 0 child0_failed)"

definition child1_failed :: world where
  "child1_failed =
     (case set_exception 1 (UserError 2) outer_failed of Inr w \<Rightarrow> w | Inl e \<Rightarrow> outer_failed)"

text \<open>
  A coroutine that returns what it is sent, and one that awaits Future \<open>f\<close> first.
  Task 2 runs the second one on Future 0: just created, after its first step, and after
  Future 0 has then finished.
\<close>

definition finish_gen :: coro where
  "finish_gen = Gen (\<lambda>r. case resumed_value r of Inl e \<Rightarrow> Raised e | Inr v \<Rightarrow> ReturnExc v)"

definition await_gen :: "fid \<Rightarrow> coro" where
  "await_gen f =
     Gen (\<lambda>r. case r of Throw e \<Rightarrow> Raised e | x \<Rightarrow> Yielded (From (OFut f)) finish_gen)"

definition task_created :: world where
  "task_created = snd (Task_init (await_gen 0) None two_futures)"

definition task_waiting :: world where
  "task_waiting = (case run_once 1 task_created of Some (r, w) \<Rightarrow> w | None \<Rightarrow> task_created)"

definition task_waiter_done :: world where
  "task_waiter_done =
     (case set_result 0 (VInt 7) task_waiting of Inr w \<Rightarrow> w | Inl e \<Rightarrow> task_waiting)"

definition task_finished :: world where
  "task_finished =
     (case run_once 1 task_waiter_done of Some (r, w) \<Rightarrow> w | None \<Rightarrow> task_waiter_done)"

text \<open>
  Task 2 created on a coroutine that answers a thrown exception by returning, and on the
  coroutine \<open>wait([f0, f1], timeout=1)\<close>.
\<close>

definition stubborn_gen :: coro where
  "stubborn_gen =
     Gen (\<lambda>r. case r of Throw e \<Rightarrow> ReturnExc (VStr ''stopped'')
               | x \<Rightarrow> Yielded (From (OFut 0)) finish_gen)"

definition stubborn_task_created :: world where
  "stubborn_task_created = snd (Task_init stubborn_gen None two_futures)"

definition wait_task_created :: world where
  "wait_task_created =
     snd (Task_init (Wait0 Collection [OFut 0, OFut 1] None (Some 1) ALL_COMPLETED) None two_futures)"

text \<open>
  The task of \<open>wait([f0, f1], timeout=1)\<close> run by the loop: after its first step
  (Task 3 runs \<open>_wait\<close>), after the first step of Task 3 (the waiter is Future 4, the
  timer is handle 0), after the timer has fired, after Task 3 was woken up, and after
  Task 2 was woken up.
\<close>

definition wait_task_delegated :: world where
  "wait_task_delegated =
     (case run_once 1 wait_task_created of Some (r, w) \<Rightarrow> w | None \<Rightarrow> wait_task_created)"

definition wait_task_armed :: world where
  "wait_task_armed =
     (case run_once 1 wait_task_delegated of Some (r, w) \<Rightarrow> w | None \<Rightarrow> wait_task_delegated)"

definition wait_task_timed_out :: world where
  "wait_task_timed_out = snd (run_call 1 (tm_call (timers wait_task_armed 0)) wait_task_armed)"

definition wait_task_collected :: world where
  "wait_task_collected =
     (case run_once 1 wait_task_timed_out of Some (r, w) \<Rightarrow> w | None \<Rightarrow> wait_task_timed_out)"

definition wait_task_returned :: world where
  "wait_task_returned =
     (case run_once 1 wait_task_collected of Some (r, w) \<Rightarrow> w | None \<Rightarrow> wait_task_collected)"

text \<open>\<open>shield(f0)\<close> on the pending Future 0: the outer Future is 2.\<close>

definition shielded :: world where
  "shielded = snd (shield (OFut 0) None two_futures)"

text \<open>
  \<open>_wait\<close> on the two pending Futures with a timeout of one second, after its first
  step (the waiter is Future 2, the timer is handle 0), and after the timer has fired.
\<close>

definition waiting_on_two :: world where
  "waiting_on_two = snd (resume_coro 1 (UWait0 [0, 1] (Some 1) ALL_COMPLETED 0) Next two_futures)"

definition wait_timed_out :: world where
  "wait_timed_out = snd (run_call 1 (tm_call (timers waiting_on_two 0)) waiting_on_two)"

text \<open>
  \<open>wait_for(f0, 1)\<close> on the pending Future 0, after its first step (the waiter is
  Future 2, the timer is handle 0); then either the timer fires, or Future 0 finishes with
  7 and its done-callback runs.
\<close>

definition wait_for_started :: world where
  "wait_for_started = snd (resume_coro 1 (WaitFor0 (OFut 0) (Some 1) None) Next two_futures)"

definition wait_for_timer_fired :: world where
  "wait_for_timer_fired =
     snd (run_call 1 (tm_call (timers wait_for_started 0)) wait_for_started)"

definition wait_for_inner_done :: world where
  "wait_for_inner_done =
     (case set_result 0 (VInt 7) wait_for_started of
        Inr w \<Rightarrow> (case run_once 1 w of Some (r, w') \<Rightarrow> w' | None \<Rightarrow> w)
      | Inl e \<Rightarrow> wait_for_started)"

text \<open>
  \<open>as_completed([f0, f1], timeout=1)\<close> on the two pending Futures (the closure is 0, the
  timer is handle 0), and then Future 1 finished with 5.
\<close>

definition as_completed_two :: world where
  "as_completed_two = snd (as_completed Collection [OFut 0, OFut 1] None (Some 1) two_futures)"

definition as_completed_child_done :: world where
  "as_completed_child_done =
     (case set_result 1 (VInt 5) as_completed_two of Inr w \<Rightarrow> w | Inl e \<Rightarrow> as_completed_two)"

section \<open>Auxiliary notions\<close>


text \<open>
  Two states agree on the outcome of every future (state, result, exception), on the
  fields of every task and on the queue of the loop.
\<close>

definition same_states :: "world \<Rightarrow> world \<Rightarrow> bool" where
  "same_states w w' =
     ((\<forall>f. f_state (fut w' f) = f_state (fut w f) \<and> f_result (fut w' f) = f_result (fut w f) \<and>
           f_exception (fut w' f) = f_exception (fut w f)) \<and>
      tasks w' = tasks w \<and> ready w' = ready w)"


section \<open>Properties\<close>

lemmas heap_defs = fut_def upd_fut_def Future_done_def Future_cancelled_def
  schedule_callbacks_def Future_cancel_def set_result_def set_exception_def
  Future_result_def Future_exception_def add_done_callback_def remove_done_callback_def
  call_soon_def Future_init_def is_future_def upd_task_def the_task_def get_event_loop_def

lemmas example_defs = initial_world_def two_futures_def finished_future_def gathered_def
  child_cancelled_def child0_failed_def outer_failed_def child1_failed_def finish_gen_def
  await_gen_def task_created_def task_waiting_def task_waiter_done_def task_finished_def
  shielded_def waiting_on_two_def wait_timed_out_def wait_for_started_def
  wait_for_timer_fired_def wait_for_inner_done_def as_completed_two_def
  as_completed_child_done_def stubborn_gen_def stubborn_task_created_def
  wait_task_created_def wait_task_delegated_def wait_task_armed_def
  wait_task_timed_out_def wait_task_collected_def wait_task_returned_def

subsection \<open>\<open>async\<close>\<close>

lemma async_is_future: "async arg loop w = (Inr inner, w1) \<Longrightarrow> is_future w1 inner"
  by (auto simp add: async_def Task_init_def heap_defs Let_def
      split: pyobj.splits if_splits prod.splits)

text \<open>
  C8.  \<open>async\<close> (\<open>ensure_task\<close>) with a loop given: a Future of that loop is returned
  itself and nothing changes; a coroutine is wrapped in a new Task of that loop, whose
  first step is queued; a Future of another loop raises \<open>ValueError\<close>; an object that
  is neither a Future nor a coroutine (nor a wrapper) raises \<open>TypeError\<close>.
\<close>

theorem async_lifting:
  "(is_future w f \<and> f_loop (fut w f) = l \<longrightarrow> async (OFut f) (Some l) w = (Inr f, w)) \<and>
   (is_future w f \<and> f_loop (fut w f) \<noteq> l \<longrightarrow>
      (\<exists>m. async (OFut f) (Some l) w = (Inl (ValueError m), w))) \<and>
   (\<exists>w'. async (OCoro i c) (Some l) w = (Inr (next_fid w), w') \<and>
      \<not> is_future w (next_fid w) \<and> is_future w' (next_fid w) \<and>
      tasks w' (next_fid w) = Some \<lparr>t_coro = c, t_fut_waiter = None, t_must_cancel = False\<rparr> \<and>
      f_loop (fut w' (next_fid w)) = l \<and> f_state (fut w' (next_fid w)) = PENDING \<and>
      ready w' = ready w @ [(l, CStep (next_fid w) VNone None)]) \<and>
   ((\<forall>g. x \<noteq> OFut g) \<and> (\<forall>j d. x \<noteq> OCoro j d) \<and> (\<forall>j y. x \<noteq> OFromWrapper j y) \<longrightarrow>
      (\<exists>m. async x (Some l) w = (Inl (TypeError m), w)))"
proof -
  have a: "is_future w f \<and> f_loop (fut w f) = l \<longrightarrow> async (OFut f) (Some l) w = (Inr f, w)"
    by (simp add: async_def)
  have b: "is_future w f \<and> f_loop (fut w f) \<noteq> l \<longrightarrow>
      (\<exists>m. async (OFut f) (Some l) w = (Inl (ValueError m), w))"
    by (simp add: async_def)
  have c: "\<exists>w'. async (OCoro i c) (Some l) w = (Inr (next_fid w), w') \<and>
      \<not> is_future w (next_fid w) \<and> is_future w' (next_fid w) \<and>
      tasks w' (next_fid w) = Some \<lparr>t_coro = c, t_fut_waiter = None, t_must_cancel = False\<rparr> \<and>
      f_loop (fut w' (next_fid w)) = l \<and> f_state (fut w' (next_fid w)) = PENDING \<and>
      ready w' = ready w @ [(l, CStep (next_fid w) VNone None)]"
    by (simp add: async_def Task_init_def heap_defs Let_def)
  have d: "(\<forall>g. x \<noteq> OFut g) \<and> (\<forall>j d. x \<noteq> OCoro j d) \<and> (\<forall>j y. x \<noteq> OFromWrapper j y) \<longrightarrow>
      (\<exists>m. async x (Some l) w = (Inl (TypeError m), w))"
    by (cases x) (auto simp add: async_def)
  from a b c d show ?thesis by blast
qed

theorem async_lifting_witness:
  "is_future two_futures 0 \<and> f_loop (fut two_futures 0) = 0 \<and>
   async (OFut 0) (Some 0) two_futures = (Inr 0, two_futures) \<and>
   (\<exists>m. async (OFut 0) (Some 1) two_futures = (Inl (ValueError m), two_futures)) \<and>
   (\<exists>m. async (OOther (VInt 42)) (Some 0) two_futures = (Inl (TypeError m), two_futures))"
  using async_lifting [where w = two_futures and f = 0 and l = 0 and x = "OOther (VInt 42)"]
    async_lifting [where w = two_futures and f = 0 and l = 1]
  by (simp add: example_defs heap_defs)


subsection \<open>\<open>shield\<close> of a future that is done\<close>

text \<open>
  C9.  When the argument of \<open>shield\<close> lifts to a future that is already done, that
  future itself is returned and the state is the one after the lifting: no outer Future
  is made.  For a done Future \<open>f\<close> (with no loop given, or its own), \<open>shield(f)\<close> is
  \<open>f\<close> and nothing changes.
\<close>

theorem shield_done_shortcut:
  "(async arg loop w = (Inr inner, w1) \<and> Future_done w1 inner \<longrightarrow>
      shield arg loop w = (Inr inner, w1)) \<and>
   (is_future w f \<and> Future_done w f \<and> (loop = None \<or> loop = Some (f_loop (fut w f))) \<longrightarrow>
      shield (OFut f) loop w = (Inr f, w) \<and> shield (From (OFut f)) loop w = (Inr f, w))"
  by (auto simp add: shield_def async_def From_def)

theorem shield_done_shortcut_witness:
  "async (OFut 0) None finished_future = (Inr 0, finished_future) \<and>
   is_future finished_future 0 \<and> Future_done finished_future 0 \<and>
   shield (OFut 0) None finished_future = (Inr 0, finished_future) \<and>
   shield (From (OFut 0)) None finished_future = (Inr 0, finished_future)"
  using shield_done_shortcut [where arg = "OFut 0" and loop = None and w = finished_future
      and inner = 0 and ?w1.0 = finished_future and f = 0]
  by (simp add: example_defs heap_defs async_def)

subsection \<open>The done-callback of \<open>gather\<close>\<close>

text \<open>
  C10.  Once the aggregate of a \<open>gather\<close> is done, the done-callback of a child that
  has finished with a stored exception retrieves that exception: afterwards it is no
  longer unobserved.  Nothing else changes: the aggregate, the closure and the queue stay
  as they are.
\<close>

theorem gather_late_exception_observed:
  "gathers w outer \<noteq> None \<Longrightarrow> f_state (fut w outer) \<noteq> PENDING \<Longrightarrow>
   f_state (fut w f) = FINISHED \<Longrightarrow> f_exception (fut w f) = Some e \<Longrightarrow>
   (\<exists>w'. gather_done_callback outer i f w = (None, w') \<and> \<not> f_unobserved (fut w' f) \<and>
      f_exception (fut w' f) = Some e \<and> f_state (fut w' outer) = f_state (fut w outer) \<and>
      gathers w' = gathers w \<and> ready w' = ready w)"
  by (auto simp add: gather_done_callback_def heap_defs)

lemma gathered_facts:
  "fst (gather [OFut 0, OFut 1] None False False two_futures) = Inr 2"
  "f_callbacks (fut gathered 0) = [GatherDone 2 0]"
  "f_callbacks (fut gathered 1) = [GatherDone 2 1]"
  "f_state (fut gathered 0) = PENDING" "f_state (fut gathered 1) = PENDING"
  "f_state (fut gathered 2) = PENDING"
  "gathers gathered 2 = Some \<lparr>g_children = [0, 1], g_return_exceptions = False, g_n = 2,
      g_nfinished = 0, g_results = [VNone, VNone]\<rparr>"
  by (simp_all add: gathered_def gather_def two_futures_def initial_world_def async_def
      heap_defs Let_def enumerate_eq_zip upt_rec numeral_2_eq_2)

theorem gather_late_exception_observed_witness:
  "gathers child1_failed 2 \<noteq> None \<and> f_state (fut child1_failed 2) \<noteq> PENDING \<and>
   f_state (fut child1_failed 1) = FINISHED \<and>
   f_exception (fut child1_failed 1) = Some (UserError 2) \<and>
   f_unobserved (fut child1_failed 1) \<and>
   (\<exists>w'. gather_done_callback 2 1 1 child1_failed = (None, w') \<and> \<not> f_unobserved (fut w' 1))"
proof -
  have h: "gathers child1_failed 2 \<noteq> None" "f_state (fut child1_failed 2) \<noteq> PENDING"
    "f_state (fut child1_failed 1) = FINISHED"
    "f_exception (fut child1_failed 1) = Some (UserError 2)"
    "f_unobserved (fut child1_failed 1)"
    by (simp_all add: child1_failed_def outer_failed_def child0_failed_def
        gather_done_callback_def gathered_def gather_def two_futures_def initial_world_def
        async_def heap_defs Let_def enumerate_eq_zip upt_rec numeral_2_eq_2)
  from gather_late_exception_observed [OF h(1) h(2) h(3) h(4), of 1] h show ?thesis by blast
qed

text \<open>
  C3 (as amended).  With \<open>return_exceptions=False\<close> and the aggregate still pending,
  the done-callback of a child that finished with an exception sets that exception on the
  aggregate at once; the done-callback of a child that was cancelled sets a
  \<open>CancelledError\<close> on the aggregate as its exception, so the aggregate is finished with
  an error and not cancelled, and no result slot is written.
\<close>

theorem gather_child_failure:
  "gathers w outer = Some g \<Longrightarrow> \<not> g_return_exceptions g \<Longrightarrow> f_state (fut w outer) = PENDING \<Longrightarrow>
   (f_state (fut w f) = FINISHED \<and> f_exception (fut w f) = Some e \<longrightarrow>
      (\<exists>w'. gather_done_callback outer i f w = (None, w') \<and>
         f_state (fut w' outer) = FINISHED \<and> f_exception (fut w' outer) = Some e \<and>
         gathers w' = gathers w)) \<and>
   (f_state (fut w f) = CANCELLED \<longrightarrow>
      (\<exists>w'. gather_done_callback outer i f w = (None, w') \<and>
         f_state (fut w' outer) = FINISHED \<and>
         f_exception (fut w' outer) = Some CancelledError \<and>
         gathers w' = gathers w))"
  by (auto simp add: gather_done_callback_def heap_defs)

lemma child_cancelled_facts:
  "gathers child_cancelled 2 = Some \<lparr>g_children = [0, 1], g_return_exceptions = False,
      g_n = 2, g_nfinished = 0, g_results = [VNone, VNone]\<rparr>"
  "f_state (fut child_cancelled 2) = PENDING"
  "f_state (fut child_cancelled 0) = CANCELLED"
  "ready child_cancelled = [(0, CGatherDone 2 0 0)]"
  by (simp_all add: child_cancelled_def gathered_def gather_def two_futures_def
      initial_world_def async_def heap_defs Let_def enumerate_eq_zip upt_rec numeral_2_eq_2)

theorem gather_child_failure_witness:
  "gathers child_cancelled 2 \<noteq> None \<and> f_state (fut child_cancelled 2) = PENDING \<and>
   f_state (fut child_cancelled 0) = CANCELLED \<and>
   (\<exists>w'. gather_done_callback 2 0 0 child_cancelled = (None, w') \<and>
      f_state (fut w' 2) = FINISHED \<and> f_exception (fut w' 2) = Some CancelledError \<and>
      gathers w' = gathers child_cancelled)"
  using gather_child_failure [OF child_cancelled_facts(1) _ child_cancelled_facts(2),
      where f = 0 and i = 0]
  by (simp add: child_cancelled_facts)

text \<open>
  C3 as the spec states it fails: after child 0 of \<open>gather(f0, f1)\<close> is cancelled and its
  done-callback has run, result slot 0 does not hold a \<open>CancelledError\<close> (it still holds
  \<open>None\<close>); the aggregate carries the \<open>CancelledError\<close> as its exception.
\<close>

theorem gather_cancelled_child_counterexample:
  "return_exceptions_of_gathered = False \<and>
   map_option (\<lambda>g. g_results g ! 0) (gathers (snd (gather_done_callback 2 0 0 child_cancelled)) 2)
     \<noteq> Some (VExc CancelledError) \<and>
   map_option (\<lambda>g. g_results g ! 0) (gathers (snd (gather_done_callback 2 0 0 child_cancelled)) 2)
     = Some VNone \<and>
   f_exception (fut (snd (gather_done_callback 2 0 0 child_cancelled)) 2) = Some CancelledError"
  by (simp add: gather_done_callback_def child_cancelled_facts
      child_cancelled_facts [unfolded fut_def] gathered_facts heap_defs
      return_exceptions_of_gathered_def)


subsection \<open>\<open>cancel\<close>\<close>













lemmas step_defs = run_once_def run_call_def Task_wakeup_def Task_step_def step_yielded_def
  step_await_def step_exc_def resume_mode_def From_def resumed_value_def Task_init_def








subsection \<open>\<open>shield\<close>\<close>

text \<open>
  C5.  When the argument lifts to a future \<open>inner\<close> that is not done, \<open>shield\<close>
  returns a new pending Future \<open>outer\<close> and registers its done-callback on \<open>inner\<close>.
  Cancelling \<open>outer\<close> cancels \<open>outer\<close> and leaves \<open>inner\<close> as it is (still not done),
  and the done-callback never changes the state of \<open>inner\<close> either.  When the callback
  runs with \<open>outer\<close> still pending, a cancelled \<open>inner\<close> cancels \<open>outer\<close>, and an
  \<open>inner\<close> finished with an exception or a result finishes \<open>outer\<close> with the same
  exception or result; when it runs with \<open>outer\<close> cancelled, \<open>outer\<close> stays cancelled.
\<close>

theorem shield_semantics:
  assumes lifted: "async arg loop w = (Inr inner, w1)" and pending: "\<not> Future_done w1 inner"
  shows "\<exists>outer w2. shield arg loop w = (Inr outer, w2) \<and> outer \<noteq> inner \<and>
     f_state (fut w2 outer) = PENDING \<and> f_exception (fut w2 outer) = None \<and>
     f_state (fut w2 inner) = PENDING \<and>
     f_callbacks (fut w2 inner) = f_callbacks (fut w1 inner) @ [ShieldDone outer] \<and>
     fst (Future_cancel outer w2) = True \<and>
     f_state (fut (snd (Future_cancel outer w2)) outer) = CANCELLED \<and>
     f_state (fut (snd (Future_cancel outer w2)) inner) = PENDING \<and>
     (\<forall>v. f_state (fut (snd (Future_cancel outer v)) inner) = f_state (fut v inner)) \<and>
     (\<forall>v. f_state (fut (snd (shield_done_callback outer inner v)) inner) = f_state (fut v inner)) \<and>
     (\<forall>v. f_state (fut v outer) = CANCELLED \<longrightarrow>
        f_state (fut (snd (shield_done_callback outer inner v)) outer) = CANCELLED) \<and>
     (\<forall>v. f_state (fut v outer) = PENDING \<and> f_state (fut v inner) = CANCELLED \<longrightarrow>
        (\<exists>v'. shield_done_callback outer inner v = (None, v') \<and>
           f_state (fut v' outer) = CANCELLED)) \<and>
     (\<forall>v e. f_state (fut v outer) = PENDING \<and> f_state (fut v inner) = FINISHED \<and>
        f_exception (fut v inner) = Some e \<longrightarrow>
        (\<exists>v'. shield_done_callback outer inner v = (None, v') \<and>
           f_state (fut v' outer) = FINISHED \<and> f_exception (fut v' outer) = Some e)) \<and>
     (\<forall>v. f_state (fut v outer) = PENDING \<and> f_exception (fut v outer) = None \<and>
        f_state (fut v inner) = FINISHED \<and> f_exception (fut v inner) = None \<longrightarrow>
        (\<exists>v'. shield_done_callback outer inner v = (None, v') \<and>
           f_state (fut v' outer) = FINISHED \<and> f_exception (fut v' outer) = None \<and>
           f_result (fut v' outer) = f_result (fut v inner)))"
proof -
  define outer where "outer = next_fid w1"
  define w2 where "w2 = snd (shield arg loop w)"
  have ne: "outer \<noteq> inner"
    using async_is_future [OF lifted] by (simp add: outer_def is_future_def)
  have sh: "shield arg loop w = (Inr outer, w2)"
    using lifted pending by (simp add: w2_def outer_def shield_def heap_defs Let_def)
  have w2: "w2 = add_done_callback inner (ShieldDone outer) (snd (Future_init (Some (f_loop (fut w1 inner))) w1))"
    using lifted pending by (simp add: w2_def outer_def shield_def heap_defs Let_def)
  have a: "f_state (fut w2 outer) = PENDING \<and> f_exception (fut w2 outer) = None \<and>
     f_state (fut w2 inner) = PENDING \<and>
     f_callbacks (fut w2 inner) = f_callbacks (fut w1 inner) @ [ShieldDone outer]"
    using ne pending by (simp add: w2 outer_def heap_defs Let_def)
  have b: "fst (Future_cancel outer w2) = True \<and>
     f_state (fut (snd (Future_cancel outer w2)) outer) = CANCELLED \<and>
     f_state (fut (snd (Future_cancel outer w2)) inner) = PENDING"
    using a ne by (simp add: heap_defs)
  have c: "\<forall>v. f_state (fut (snd (Future_cancel outer v)) inner) = f_state (fut v inner)"
    using ne by (simp add: heap_defs)
  have d: "\<forall>v. f_state (fut (snd (shield_done_callback outer inner v)) inner) = f_state (fut v inner)"
    using ne by (auto simp add: shield_done_callback_def heap_defs split: fstate.splits option.splits)
  have e: "\<forall>v. f_state (fut v outer) = CANCELLED \<longrightarrow>
        f_state (fut (snd (shield_done_callback outer inner v)) outer) = CANCELLED"
    using ne by (auto simp add: shield_done_callback_def heap_defs split: fstate.splits option.splits)
  have f: "\<forall>v. f_state (fut v outer) = PENDING \<and> f_state (fut v inner) = CANCELLED \<longrightarrow>
        (\<exists>v'. shield_done_callback outer inner v = (None, v') \<and>
           f_state (fut v' outer) = CANCELLED)"
    using ne by (auto simp add: shield_done_callback_def heap_defs)
  have g: "\<forall>v e. f_state (fut v outer) = PENDING \<and> f_state (fut v inner) = FINISHED \<and>
        f_exception (fut v inner) = Some e \<longrightarrow>
        (\<exists>v'. shield_done_callback outer inner v = (None, v') \<and>
           f_state (fut v' outer) = FINISHED \<and> f_exception (fut v' outer) = Some e)"
    using ne by (auto simp add: shield_done_callback_def heap_defs)
  have h: "\<forall>v. f_state (fut v outer) = PENDING \<and> f_exception (fut v outer) = None \<and>
        f_state (fut v inner) = FINISHED \<and> f_exception (fut v inner) = None \<longrightarrow>
        (\<exists>v'. shield_done_callback outer inner v = (None, v') \<and>
           f_state (fut v' outer) = FINISHED \<and> f_exception (fut v' outer) = None \<and>
           f_result (fut v' outer) = f_result (fut v inner))"
    using ne by (auto simp add: shield_done_callback_def heap_defs)
  from sh ne a b c d e f g h show ?thesis by blast
qed


lemma shielded_facts:
  "async (OFut 0) None two_futures = (Inr 0, two_futures)"
  "\<not> Future_done two_futures 0"
  "shield (OFut 0) None two_futures = (Inr 2, shielded)"
  "f_state (fut (snd (Future_cancel 0 shielded)) 2) = PENDING"
  "f_state (fut (snd (Future_cancel 0 shielded)) 0) = CANCELLED"
  by (simp_all add: shielded_def shield_def async_def two_futures_def initial_world_def
      heap_defs Let_def)

theorem shield_semantics_witness:
  "async (OFut 0) None two_futures = (Inr 0, two_futures) \<and> \<not> Future_done two_futures 0 \<and>
   shield (OFut 0) None two_futures = (Inr 2, shielded) \<and>
   f_state (fut (snd (Future_cancel 2 shielded)) 2) = CANCELLED \<and>
   f_state (fut (snd (Future_cancel 2 shielded)) 0) = PENDING \<and>
   f_state (fut (snd (Future_cancel 0 shielded)) 2) = PENDING \<and>
   f_state (fut (snd (Future_cancel 0 shielded)) 0) = CANCELLED \<and>
   (\<exists>v'. shield_done_callback 2 0 (snd (Future_cancel 0 shielded)) = (None, v') \<and>
      f_state (fut v' 2) = CANCELLED)"
proof -
  from shield_semantics [OF shielded_facts(1) shielded_facts(2)] obtain outer w2 where
    sh: "shield (OFut 0) None two_futures = (Inr outer, w2)"
    and b: "f_state (fut (snd (Future_cancel outer w2)) outer) = CANCELLED"
      "f_state (fut (snd (Future_cancel outer w2)) 0) = PENDING"
    and f: "\<forall>v. f_state (fut v outer) = PENDING \<and> f_state (fut v 0) = CANCELLED \<longrightarrow>
        (\<exists>v'. shield_done_callback outer 0 v = (None, v') \<and> f_state (fut v' outer) = CANCELLED)"
    by blast
  from sh shielded_facts(3) have eq: "outer = 2" "w2 = shielded" by simp_all
  from f [unfolded eq, rule_format, of "snd (Future_cancel 0 shielded)"]
    b [unfolded eq] shielded_facts
  show ?thesis by simp
qed


subsection \<open>\<open>wait\<close>\<close>

lemma same_states_refl: "same_states w w"
  by (simp add: same_states_def)

lemma same_states_trans: "same_states w w1 \<Longrightarrow> same_states w1 w2 \<Longrightarrow> same_states w w2"
  by (simp add: same_states_def)

lemma remove_done_callback_states: "same_states w (snd (remove_done_callback f cb w))"
  by (simp add: same_states_def heap_defs)

lemma handle_cancel_states: "same_states w (handle_cancel h w)"
  by (simp add: same_states_def handle_cancel_def fut_def)

lemma same_states_done: "same_states w w' \<Longrightarrow> Future_done w' f = Future_done w f"
  by (simp add: same_states_def Future_done_def)

lemma uwait_collect_partition:
  "\<exists>w'. uwait_collect cb fs dn pending w =
      ((dn @ filter (Future_done w) fs, pending @ filter (\<lambda>f. \<not> Future_done w f) fs), w') \<and>
      same_states w w'"
proof (induction fs arbitrary: dn pending w)
  case Nil
  show ?case by (simp add: same_states_refl)
next
  case (Cons f fs)
  obtain k w1 where r: "remove_done_callback f cb w = (k, w1)"
    by (cases "remove_done_callback f cb w")
  have s1: "same_states w w1" using remove_done_callback_states [of w f cb] r by simp
  have dq: "Future_done w1 = Future_done w" using same_states_done [OF s1] by (rule ext)
  show ?case
  proof (cases "Future_done w f")
    case True
    from Cons.IH [of "dn @ [f]" pending w1] obtain w' where
      "uwait_collect cb fs (dn @ [f]) pending w1 =
         (((dn @ [f]) @ filter (Future_done w1) fs,
           pending @ filter (\<lambda>f. \<not> Future_done w1 f) fs), w')"
      "same_states w1 w'" by blast
    then show ?thesis using r True dq s1 by (auto intro: same_states_trans)
  next
    case False
    from Cons.IH [of dn "pending @ [f]" w1] obtain w' where
      "uwait_collect cb fs dn (pending @ [f]) w1 =
         ((dn @ filter (Future_done w1) fs,
           (pending @ [f]) @ filter (\<lambda>f. \<not> Future_done w1 f) fs), w')"
      "same_states w1 w'" by blast
    then show ?thesis using r False dq s1 by (auto intro: same_states_trans)
  qed
qed

lemma uwait_resume_value:
  assumes rv: "resumed_value r = Inr v"
  shows "\<exists>w'. uwait_resume fs c r w =
      (ReturnExc (VTuple [VSet (filter (Future_done w) fs),
                          VSet (filter (\<lambda>f. \<not> Future_done w f) fs)]), w') \<and>
      same_states w w'"
proof -
  define w1 where
    "w1 = (case w_timeout_handle (waits w c) of None \<Rightarrow> w | Some h \<Rightarrow> handle_cancel h w)"
  have s1: "same_states w w1"
    by (auto simp add: w1_def same_states_refl handle_cancel_states split: option.splits)
  have dq: "Future_done w1 = Future_done w" using same_states_done [OF s1] by (rule ext)
  from uwait_collect_partition [of "WaitOnCompletion c" fs "[]" "[]" w1] obtain w' where
    "uwait_collect (WaitOnCompletion c) fs [] [] w1 =
       (([] @ filter (Future_done w1) fs, [] @ filter (\<lambda>f. \<not> Future_done w1 f) fs), w')"
    "same_states w1 w'" by blast
  then show ?thesis using rv s1 dq
    by (auto simp add: uwait_resume_def w1_def [symmetric] Let_def intro: same_states_trans)
qed

lemma async_error: "async x loop w = (Inl e, w') \<Longrightarrow> e \<noteq> TimeoutError"
  by (auto simp add: async_def Let_def split: pyobj.splits if_splits prod.splits)

lemma lift_all_error: "lift_all xs loop w = (Inl e, w') \<Longrightarrow> e \<noteq> TimeoutError"
proof (induction xs arbitrary: w)
  case Nil
  then show ?case by simp
next
  case (Cons x xs)
  then show ?case by (auto split: prod.splits sum.splits dest: async_error)
qed

lemma wait_no_timeout:
  assumes c: "c = Wait0 kind objs loop timeout rw \<or> c = Wait1 \<or>
      c = UWait0 fs timeout rw l \<or> c = UWait1 fs k"
    and r: "r \<noteq> Throw TimeoutError"
  shows "fst (resume_coro n c r w) \<noteq> Raised TimeoutError"
  using c
proof (elim disjE)
  assume "c = Wait0 kind objs loop timeout rw"
  then show ?thesis using r
    by (cases r) (auto simp add: unstarted_def wait_start_def Let_def
        split: prod.splits sum.splits dest: lift_all_error)
next
  assume "c = Wait1"
  then show ?thesis using r by (cases r) (auto simp add: resumed_value_def)
next
  assume "c = UWait0 fs timeout rw l"
  then show ?thesis using r
    by (cases r) (auto simp add: unstarted_def uwait_start_def Let_def
        split: prod.splits option.splits)
next
  assume c': "c = UWait1 fs k"
  show ?thesis
  proof (cases r)
    case (Throw e)
    then show ?thesis using r c' by (simp add: uwait_resume_def resumed_value_def Let_def)
  next
    case Next
    then have "resumed_value r = Inr VNone" by (simp add: resumed_value_def)
    from uwait_resume_value [OF this, of fs k w] show ?thesis using c' by auto
  next
    case (Send v)
    then have "resumed_value r = Inr v" by (simp add: resumed_value_def)
    from uwait_resume_value [OF this, of fs k w] show ?thesis using c' by auto
  qed
qed


lemma fold_add_done_callback_frame:
  "timers (fold (\<lambda>f. add_done_callback f cb) fs w) = timers w \<and>
   waits (fold (\<lambda>f. add_done_callback f cb) fs w) = waits w \<and>
   tasks (fold (\<lambda>f. add_done_callback f cb) fs w) = tasks w \<and>
   (\<forall>f. f_state (fut (fold (\<lambda>f. add_done_callback f cb) fs w) f) = f_state (fut w f))"
  by (induction fs arbitrary: w) (auto simp add: heap_defs)

lemma uwait_start_timer:
  "fs \<noteq> [] \<Longrightarrow> \<exists>w'. resume_coro n (UWait0 fs (Some d) rw l) Next w =
      (Yielded (From (OFut (next_fid w))) (UWait1 fs (next_wait w)), w') \<and>
      tm_call (timers w' (next_hid w)) = CReleaseWaiter (next_fid w) (VBool True) \<and>
      \<not> tm_cancelled (timers w' (next_hid w)) \<and>
      w_timeout_handle (waits w' (next_wait w)) = Some (next_hid w) \<and>
      (\<forall>f. f \<noteq> next_fid w \<longrightarrow> f_state (fut w' f) = f_state (fut w f))"
  by (simp add: unstarted_def uwait_start_def Let_def call_later_def Future_init_def
      fold_add_done_callback_frame fold_add_done_callback_frame [unfolded fut_def] fut_def)

lemma release_waiter_frame:
  "fst (run_call n (CReleaseWaiter waiter v) w) \<noteq> Some TimeoutError \<and>
   tasks (snd (run_call n (CReleaseWaiter waiter v) w)) = tasks w \<and>
   (\<forall>f. f \<noteq> waiter \<longrightarrow>
      f_state (fut (snd (run_call n (CReleaseWaiter waiter v) w)) f) = f_state (fut w f))"
  by (simp add: run_call_def release_waiter_def heap_defs)

lemma async_frame:
  "async x loop w = (r, w1) \<Longrightarrow>
     next_fid w \<le> next_fid w1 \<and> (\<forall>f. f < next_fid w \<longrightarrow> fut w1 f = fut w f \<and> tasks w1 f = tasks w f)"
  by (auto simp add: async_def Task_init_def Future_init_def call_soon_def fut_def Let_def
      split: pyobj.splits if_splits)

lemma lift_all_frame:
  "lift_all xs loop w = (r, w1) \<Longrightarrow>
     next_fid w \<le> next_fid w1 \<and> (\<forall>f. f < next_fid w \<longrightarrow> fut w1 f = fut w f \<and> tasks w1 f = tasks w f)"
proof (induction xs arbitrary: w r w1)
  case Nil
  then show ?case by simp
next
  case (Cons x xs)
  obtain a wa where a: "async x loop w = (a, wa)" by (cases "async x loop w")
  note fa = async_frame [OF a]
  show ?case
  proof (cases a)
    case (Inl e)
    then show ?thesis using Cons.prems a fa by simp
  next
    case (Inr f)
    obtain b wb where b: "lift_all xs loop wa = (b, wb)" by (cases "lift_all xs loop wa")
    note fb = Cons.IH [OF b]
    have "w1 = wb" using Cons.prems a Inr b by (auto split: sum.splits)
    then show ?thesis using fa fb by auto
  qed
qed

lemma lift_all_length: "lift_all xs loop w = (Inr fs, w1) \<Longrightarrow> length fs = length xs"
  by (induction xs arbitrary: w fs w1) (auto split: prod.splits sum.splits)

lemma set_of_objs_distinct_futures:
  "distinct fl \<Longrightarrow> set_of_objs (map OFut fl) = map OFut fl"
proof (induction fl)
  case Nil
  then show ?case by simp
next
  case (Cons f fl)
  have "filter (\<lambda>y. \<not> same_obj (OFut f) y) (map OFut fl) = map OFut fl"
  proof -
    have "filter ((\<noteq>) f) fl = fl" using Cons.prems by (auto simp add: filter_id_conv)
    then show ?thesis by (simp add: filter_map o_def)
  qed
  then show ?case using Cons by simp
qed

lemma lift_all_futures:
  "\<forall>f \<in> set fl. is_future w f \<and> f_loop (fut w f) = lp \<Longrightarrow>
     lift_all (map OFut fl) (Some lp) w = (Inr fl, w)"
  by (induction fl) (auto simp add: async_def)

lemma wait_first_step:
  assumes ne: "objs \<noteq> []"
    and rw: "rw \<in> {FIRST_COMPLETED, FIRST_EXCEPTION, ALL_COMPLETED}"
    and lp: "lp = (case loop of None \<Rightarrow> get_event_loop w | Some x \<Rightarrow> x)"
    and la: "lift_all (set_of_objs objs) (Some lp) w = (Inr lifted, w1)"
  shows "resume_coro n (Wait0 Collection objs loop timeout rw) Next w =
       (Yielded (From (OCoro 0 (UWait0 (remdups lifted) timeout rw lp))) Wait1, w1) \<and>
     remdups lifted \<noteq> [] \<and>
     (\<forall>f. f < next_fid w \<longrightarrow> fut w1 f = fut w f \<and> tasks w1 f = tasks w f)"
proof -
  have "set_of_objs objs \<noteq> []" using ne by (cases objs) simp_all
  then have l: "lifted \<noteq> []" using lift_all_length [OF la] by auto
  have "resume_coro n (Wait0 Collection objs loop timeout rw) Next w =
       (Yielded (From (OCoro 0 (UWait0 (remdups lifted) timeout rw lp))) Wait1, w1)"
    using ne rw la unfolding lp by (simp add: unstarted_def wait_start_def Let_def)
  then show ?thesis using l lift_all_frame [OF la] by simp
qed

lemma wait_first_step_futures:
  assumes ne: "fl \<noteq> []" and d: "distinct fl"
    and rw: "rw \<in> {FIRST_COMPLETED, FIRST_EXCEPTION, ALL_COMPLETED}"
    and lp: "lp = (case loop of None \<Rightarrow> get_event_loop w | Some x \<Rightarrow> x)"
    and fu: "\<forall>f \<in> set fl. is_future w f \<and> f_loop (fut w f) = lp"
  shows "resume_coro n (Wait0 Collection (map OFut fl) loop timeout rw) Next w =
       (Yielded (From (OCoro 0 (UWait0 fl timeout rw lp))) Wait1, w)"
proof -
  have la: "lift_all (set_of_objs (map OFut fl)) (Some lp) w = (Inr fl, w)"
    using lift_all_futures [OF fu] set_of_objs_distinct_futures [OF d] by simp
  have n: "map OFut fl \<noteq> []" using ne by simp
  show ?thesis using wait_first_step [OF n rw lp la, of n timeout] distinct_remdups_id [OF d]
    by (simp del: resume_coro.simps)
qed

lemma release_waiter_result:
  "f_state (fut w waiter) = PENDING \<Longrightarrow>
     f_state (fut (snd (run_call n (CReleaseWaiter waiter v) w)) waiter) = FINISHED \<and>
     f_result (fut (snd (run_call n (CReleaseWaiter waiter v) w)) waiter) = v"
  by (simp add: run_call_def release_waiter_def heap_defs)

text \<open>
  C4.  Neither \<open>wait\<close> nor \<open>_wait\<close> raises \<open>TimeoutError\<close>, at any program point and
  whatever they are resumed with (unless that very exception is thrown into them from
  outside).  The first step of \<open>wait\<close> on a non-empty collection lifts the members with
  \<open>async\<close> and yields \<open>_wait\<close> on the set of the lifted children, with the same
  timeout; lifting leaves every Future and every Task that existed as it was, and when
  the members are distinct Futures of the loop the children are these Futures and nothing
  changes.  With a timeout, \<open>_wait\<close> arms a timer whose call is
  \<open>_release_waiter(waiter)\<close>; that call gives the pending waiter its result and touches
  no other future and no task.  Resumed after the waiter was released, \<open>_wait\<close> returns
  the pair of the children that are done and of those that are not, and leaves the outcome
  of every future and every task as it was: the pending children are returned and not
  cancelled.  \<open>wait\<close> returns what \<open>_wait\<close> returned.
\<close>

theorem wait_returns_pending_on_timeout:
  "((c = Wait0 kind objs loop timeout rw \<or> c = Wait1 \<or> c = UWait0 fs timeout rw l \<or>
     c = UWait1 fs k) \<and> r \<noteq> Throw TimeoutError \<longrightarrow>
      fst (resume_coro n c r w) \<noteq> Raised TimeoutError) \<and>
   (objs \<noteq> [] \<and> rw \<in> {FIRST_COMPLETED, FIRST_EXCEPTION, ALL_COMPLETED} \<and>
    lp = (case loop of None \<Rightarrow> get_event_loop w | Some x \<Rightarrow> x) \<and>
    lift_all (set_of_objs objs) (Some lp) w = (Inr lifted, w1) \<longrightarrow>
      resume_coro n (Wait0 Collection objs loop timeout rw) Next w =
        (Yielded (From (OCoro 0 (UWait0 (remdups lifted) timeout rw lp))) Wait1, w1) \<and>
      remdups lifted \<noteq> [] \<and>
      (\<forall>f. f < next_fid w \<longrightarrow> fut w1 f = fut w f \<and> tasks w1 f = tasks w f)) \<and>
   (fl \<noteq> [] \<and> distinct fl \<and> rw \<in> {FIRST_COMPLETED, FIRST_EXCEPTION, ALL_COMPLETED} \<and>
    lp = (case loop of None \<Rightarrow> get_event_loop w | Some x \<Rightarrow> x) \<and>
    (\<forall>f \<in> set fl. is_future w f \<and> f_loop (fut w f) = lp) \<longrightarrow>
      resume_coro n (Wait0 Collection (map OFut fl) loop timeout rw) Next w =
        (Yielded (From (OCoro 0 (UWait0 fl timeout rw lp))) Wait1, w)) \<and>
   (fs \<noteq> [] \<longrightarrow>
      (\<exists>w'. resume_coro n (UWait0 fs (Some d) rw l) Next w =
           (Yielded (From (OFut (next_fid w))) (UWait1 fs (next_wait w)), w') \<and>
         tm_call (timers w' (next_hid w)) = CReleaseWaiter (next_fid w) (VBool True) \<and>
         \<not> tm_cancelled (timers w' (next_hid w)) \<and>
         w_timeout_handle (waits w' (next_wait w)) = Some (next_hid w) \<and>
         (\<forall>f. f \<noteq> next_fid w \<longrightarrow> f_state (fut w' f) = f_state (fut w f)))) \<and>
   fst (run_call n (CReleaseWaiter waiter v) w) \<noteq> Some TimeoutError \<and>
   tasks (snd (run_call n (CReleaseWaiter waiter v) w)) = tasks w \<and>
   (\<forall>f. f \<noteq> waiter \<longrightarrow>
      f_state (fut (snd (run_call n (CReleaseWaiter waiter v) w)) f) = f_state (fut w f)) \<and>
   (f_state (fut w waiter) = PENDING \<longrightarrow>
      f_state (fut (snd (run_call n (CReleaseWaiter waiter v) w)) waiter) = FINISHED \<and>
      f_result (fut (snd (run_call n (CReleaseWaiter waiter v) w)) waiter) = v) \<and>
   (r = Next \<or> r = Send v \<longrightarrow>
      (\<exists>w'. resume_coro n (UWait1 fs k) r w =
           (ReturnExc (VTuple [VSet (filter (Future_done w) fs),
                               VSet (filter (\<lambda>f. \<not> Future_done w f) fs)]), w') \<and>
         same_states w w')) \<and>
   resume_coro n Wait1 (Send v) w = (ReturnExc v, w)"
proof -
  have a: "(c = Wait0 kind objs loop timeout rw \<or> c = Wait1 \<or> c = UWait0 fs timeout rw l \<or>
     c = UWait1 fs k) \<and> r \<noteq> Throw TimeoutError \<longrightarrow>
      fst (resume_coro n c r w) \<noteq> Raised TimeoutError"
    using wait_no_timeout [of c kind objs loop timeout rw fs l k r n w] by blast
  have b: "r = Next \<or> r = Send v \<longrightarrow>
      (\<exists>w'. resume_coro n (UWait1 fs k) r w =
           (ReturnExc (VTuple [VSet (filter (Future_done w) fs),
                               VSet (filter (\<lambda>f. \<not> Future_done w f) fs)]), w') \<and>
         same_states w w')"
  proof
    assume "r = Next \<or> r = Send v"
    then obtain u where "resumed_value r = Inr u" by (auto simp add: resumed_value_def)
    from uwait_resume_value [OF this, of fs k w] show
      "\<exists>w'. resume_coro n (UWait1 fs k) r w =
           (ReturnExc (VTuple [VSet (filter (Future_done w) fs),
                               VSet (filter (\<lambda>f. \<not> Future_done w f) fs)]), w') \<and>
         same_states w w'" by simp
  qed
  have c: "resume_coro n Wait1 (Send v) w = (ReturnExc v, w)"
    by (simp add: resumed_value_def)
  have d: "objs \<noteq> [] \<and> rw \<in> {FIRST_COMPLETED, FIRST_EXCEPTION, ALL_COMPLETED} \<and>
    lp = (case loop of None \<Rightarrow> get_event_loop w | Some x \<Rightarrow> x) \<and>
    lift_all (set_of_objs objs) (Some lp) w = (Inr lifted, w1) \<longrightarrow>
      resume_coro n (Wait0 Collection objs loop timeout rw) Next w =
        (Yielded (From (OCoro 0 (UWait0 (remdups lifted) timeout rw lp))) Wait1, w1) \<and>
      remdups lifted \<noteq> [] \<and>
      (\<forall>f. f < next_fid w \<longrightarrow> fut w1 f = fut w f \<and> tasks w1 f = tasks w f)"
    using wait_first_step [where objs = objs and rw = rw and lp = lp and loop = loop and w = w
        and lifted = lifted and ?w1.0 = w1 and n = n and timeout = timeout] by blast
  have e: "fl \<noteq> [] \<and> distinct fl \<and> rw \<in> {FIRST_COMPLETED, FIRST_EXCEPTION, ALL_COMPLETED} \<and>
    lp = (case loop of None \<Rightarrow> get_event_loop w | Some x \<Rightarrow> x) \<and>
    (\<forall>f \<in> set fl. is_future w f \<and> f_loop (fut w f) = lp) \<longrightarrow>
      resume_coro n (Wait0 Collection (map OFut fl) loop timeout rw) Next w =
        (Yielded (From (OCoro 0 (UWait0 fl timeout rw lp))) Wait1, w)"
    using wait_first_step_futures [where fl = fl and rw = rw and lp = lp and loop = loop and w = w
        and n = n and timeout = timeout] by blast
  have f: "f_state (fut w waiter) = PENDING \<longrightarrow>
      f_state (fut (snd (run_call n (CReleaseWaiter waiter v) w)) waiter) = FINISHED \<and>
      f_result (fut (snd (run_call n (CReleaseWaiter waiter v) w)) waiter) = v"
    using release_waiter_result [where w = w and waiter = waiter and n = n and v = v] by blast
  have g: "fs \<noteq> [] \<longrightarrow>
      (\<exists>w'. resume_coro n (UWait0 fs (Some d) rw l) Next w =
           (Yielded (From (OFut (next_fid w))) (UWait1 fs (next_wait w)), w') \<and>
         tm_call (timers w' (next_hid w)) = CReleaseWaiter (next_fid w) (VBool True) \<and>
         \<not> tm_cancelled (timers w' (next_hid w)) \<and>
         w_timeout_handle (waits w' (next_wait w)) = Some (next_hid w) \<and>
         (\<forall>f. f \<noteq> next_fid w \<longrightarrow> f_state (fut w' f) = f_state (fut w f)))"
    using uwait_start_timer [of fs n d rw l w] by blast
  note h = release_waiter_frame [of n waiter v w]
  show ?thesis
    by (intro conjI a d e g h [THEN conjunct1] h [THEN conjunct2, THEN conjunct1]
        h [THEN conjunct2, THEN conjunct2] f b c)
qed
lemma wait_example_facts:
  "fst (resume_coro 1 (UWait0 [0, 1] (Some 1) ALL_COMPLETED 0) Next two_futures) =
     Yielded (From (OFut 2)) (UWait1 [0, 1] 0)"
  "tm_call (timers waiting_on_two 0) = CReleaseWaiter 2 (VBool True)"
  "f_state (fut wait_timed_out 0) = PENDING" "f_state (fut wait_timed_out 1) = PENDING"
  "f_state (fut wait_timed_out 2) = FINISHED" "f_result (fut wait_timed_out 2) = VBool True"
  "filter (Future_done wait_timed_out) [0, 1] = []"
  "filter (\<lambda>f. \<not> Future_done wait_timed_out f) [0, 1] = [0, 1]"
  by (simp_all add: wait_timed_out_def waiting_on_two_def run_call_def release_waiter_def
      unstarted_def uwait_start_def call_later_def two_futures_def initial_world_def
      heap_defs Let_def numeral_2_eq_2)

lemmas wait_task_eval = wait_task_created_def two_futures_def initial_world_def step_defs heap_defs
  Let_def async_def unstarted_def wait_start_def uwait_start_def uwait_resume_def
  call_later_def handle_cancel_def release_waiter_def
  FIRST_COMPLETED_def FIRST_EXCEPTION_def ALL_COMPLETED_def numeral_2_eq_2 One_nat_def

lemma wait_task_delegated_facts:
  "tasks wait_task_delegated 2 = Some \<lparr>t_coro = Wait1, t_fut_waiter = Some 3, t_must_cancel = False\<rparr>"
  "tasks wait_task_delegated 3 =
     Some \<lparr>t_coro = UWait0 [0, 1] (Some 1) ALL_COMPLETED 0, t_fut_waiter = None, t_must_cancel = False\<rparr>"
  "ready wait_task_delegated = [(0, CStep 3 VNone None)]"
  "f_callbacks (fut wait_task_delegated 3) = [Wakeup 2]"
  by (simp_all add: wait_task_delegated_def wait_task_eval)

lemma wait_task_armed_facts:
  "tasks wait_task_armed 3 = Some \<lparr>t_coro = UWait1 [0, 1] 0, t_fut_waiter = Some 4, t_must_cancel = False\<rparr>"
  "ready wait_task_armed = []"
  "tm_call (timers wait_task_armed 0) = CReleaseWaiter 4 (VBool True)"
  "f_callbacks (fut wait_task_armed 4) = [Wakeup 3]"
  by (simp_all add: wait_task_armed_def wait_task_delegated_def wait_task_eval)

lemma wait_task_timed_out_facts:
  "ready wait_task_timed_out = [(0, CWakeup 3 4)]"
  "f_state (fut wait_task_timed_out 0) = PENDING" "f_state (fut wait_task_timed_out 1) = PENDING"
  by (simp_all add: wait_task_timed_out_def wait_task_armed_def wait_task_delegated_def wait_task_eval)

lemma wait_task_collected_facts:
  "ready wait_task_collected = [(0, CWakeup 2 3)]"
  "f_state (fut wait_task_collected 3) = FINISHED"
  "f_result (fut wait_task_collected 3) = VTuple [VSet [], VSet [0, 1]]"
  by (simp_all add: wait_task_collected_def wait_task_timed_out_def wait_task_armed_def
      wait_task_delegated_def wait_task_eval)

lemma wait_task_returned_facts:
  "ready wait_task_returned = []"
  "f_state (fut wait_task_returned 2) = FINISHED"
  "f_exception (fut wait_task_returned 2) = None"
  "f_result (fut wait_task_returned 2) = VTuple [VSet [], VSet [0, 1]]"
  "f_state (fut wait_task_returned 0) = PENDING" "f_state (fut wait_task_returned 1) = PENDING"
  by (simp_all add: wait_task_returned_def wait_task_collected_def wait_task_timed_out_def
      wait_task_armed_def wait_task_delegated_def wait_task_eval)

theorem wait_returns_pending_on_timeout_witness:
  "resume_coro 1 (Wait0 Collection (map OFut [0, 1]) None (Some 1) ALL_COMPLETED) Next two_futures =
     (Yielded (From (OCoro 0 (UWait0 [0, 1] (Some 1) ALL_COMPLETED 0))) Wait1, two_futures) \<and>
   fst (resume_coro 1 (UWait0 [0, 1] (Some 1) ALL_COMPLETED 0) Next two_futures) =
     Yielded (From (OFut 2)) (UWait1 [0, 1] 0) \<and>
   tm_call (timers waiting_on_two 0) = CReleaseWaiter 2 (VBool True) \<and>
   f_state (fut wait_timed_out 2) = FINISHED \<and>
   fst (resume_coro 1 (UWait1 [0, 1] 0) (Send (VBool True)) wait_timed_out) =
     ReturnExc (VTuple [VSet [], VSet [0, 1]]) \<and>
   fst (resume_coro 1 (UWait1 [0, 1] 0) (Send (VBool True)) wait_timed_out) \<noteq>
     Raised TimeoutError \<and>
   f_state (fut (snd (resume_coro 1 (UWait1 [0, 1] 0) (Send (VBool True)) wait_timed_out)) 0)
     = PENDING \<and>
   f_state (fut (snd (resume_coro 1 (UWait1 [0, 1] 0) (Send (VBool True)) wait_timed_out)) 1)
     = PENDING \<and>
   tasks wait_task_delegated 3 =
     Some \<lparr>t_coro = UWait0 [0, 1] (Some 1) ALL_COMPLETED 0, t_fut_waiter = None,
           t_must_cancel = False\<rparr> \<and>
   tm_call (timers wait_task_armed 0) = CReleaseWaiter 4 (VBool True) \<and>
   f_state (fut wait_task_returned 2) = FINISHED \<and>
   f_exception (fut wait_task_returned 2) = None \<and>
   f_result (fut wait_task_returned 2) = VTuple [VSet [], VSet [0, 1]] \<and>
   f_state (fut wait_task_returned 0) = PENDING \<and> f_state (fut wait_task_returned 1) = PENDING"
proof -
  note T = wait_returns_pending_on_timeout [where c = "UWait1 [0, 1] 0" and fs = "[0, 1]"
      and k = 0 and r = "Send (VBool True)" and v = "VBool True" and n = 1
      and w = wait_timed_out]
  note U = wait_returns_pending_on_timeout [where fl = "[0, 1]" and w = two_futures
      and loop = None and lp = 0 and rw = ALL_COMPLETED and timeout = "Some 1" and n = 1]
  have h: "[0, 1] \<noteq> ([] :: nat list) \<and> distinct [0 :: nat, 1] \<and>
      ALL_COMPLETED \<in> {FIRST_COMPLETED, FIRST_EXCEPTION, ALL_COMPLETED} \<and>
      (0 :: nat) = (case None of None \<Rightarrow> get_event_loop two_futures | Some x \<Rightarrow> x) \<and>
      (\<forall>f \<in> set [0, 1]. is_future two_futures f \<and> f_loop (fut two_futures f) = 0)"
    by (simp add: two_futures_def initial_world_def heap_defs Let_def)
  have u: "resume_coro 1 (Wait0 Collection (map OFut [0, 1]) None (Some 1) ALL_COMPLETED)
      Next two_futures =
       (Yielded (From (OCoro 0 (UWait0 [0, 1] (Some 1) ALL_COMPLETED 0))) Wait1, two_futures)"
    by (rule U [THEN conjunct2, THEN conjunct2, THEN conjunct1, THEN mp, OF h])
  have rv: "Send (VBool True) = Next \<or> Send (VBool True) = Send (VBool True)" by simp
  from T [THEN conjunct2, THEN conjunct2, THEN conjunct2, THEN conjunct2, THEN conjunct2,
      THEN conjunct2, THEN conjunct2, THEN conjunct2, THEN conjunct1, THEN mp, OF rv]
  obtain w' where
    r: "resume_coro 1 (UWait1 [0, 1] 0) (Send (VBool True)) wait_timed_out =
         (ReturnExc (VTuple [VSet (filter (Future_done wait_timed_out) [0, 1]),
             VSet (filter (\<lambda>f. \<not> Future_done wait_timed_out f) [0, 1])]), w')"
    and s: "same_states wait_timed_out w'" by (elim exE conjE)
  have pre: "(UWait1 [0, 1] 0 = Wait0 kind objs loop timeout rw \<or> UWait1 [0, 1] 0 = Wait1 \<or>
      UWait1 [0, 1] 0 = UWait0 [0, 1] timeout rw l \<or> UWait1 [0, 1] 0 = UWait1 [0, 1] 0) \<and>
      Send (VBool True) \<noteq> Throw TimeoutError" for kind objs loop timeout rw l
    by simp
  have nt: "fst (resume_coro 1 (UWait1 [0, 1] 0) (Send (VBool True)) wait_timed_out) \<noteq>
     Raised TimeoutError"
    by (rule T [THEN conjunct1, THEN mp, OF pre])
  have old: "fst (resume_coro 1 (UWait0 [0, 1] (Some 1) ALL_COMPLETED 0) Next two_futures) =
     Yielded (From (OFut 2)) (UWait1 [0, 1] 0) \<and>
   tm_call (timers waiting_on_two 0) = CReleaseWaiter 2 (VBool True) \<and>
   f_state (fut wait_timed_out 2) = FINISHED \<and>
   fst (resume_coro 1 (UWait1 [0, 1] 0) (Send (VBool True)) wait_timed_out) =
     ReturnExc (VTuple [VSet [], VSet [0, 1]]) \<and>
   fst (resume_coro 1 (UWait1 [0, 1] 0) (Send (VBool True)) wait_timed_out) \<noteq>
     Raised TimeoutError \<and>
   f_state (fut (snd (resume_coro 1 (UWait1 [0, 1] 0) (Send (VBool True)) wait_timed_out)) 0)
     = PENDING \<and>
   f_state (fut (snd (resume_coro 1 (UWait1 [0, 1] 0) (Send (VBool True)) wait_timed_out)) 1)
     = PENDING"
    using r s nt wait_example_facts
    by (simp add: same_states_def del: resume_coro.simps)
  show ?thesis
    using u old wait_task_delegated_facts(2) wait_task_armed_facts(3) wait_task_returned_facts
    by (simp del: resume_coro.simps)
qed


subsection \<open>\<open>wait_for\<close>\<close>

lemma Future_init_eq: "Future_init loop w = (next_fid w, snd (Future_init loop w))"
  by (simp add: Future_init_def Let_def)

lemma call_later_eq: "call_later l d c w = (next_hid w, snd (call_later l d c w))"
  by (simp add: call_later_def)

lemma async_timers: "async x loop w = (r, w') \<Longrightarrow> timers w' = timers w \<and> next_hid w' = next_hid w"
  by (auto simp add: async_def Task_init_def Future_init_def call_soon_def Let_def split: pyobj.splits if_splits)

lemma add_done_callback_timers: "timers (add_done_callback f cb w) = timers w \<and> next_fid (add_done_callback f cb w) = next_fid w"
  by (simp add: add_done_callback_def call_soon_def upd_fut_def)

lemma wait_for_begin:
  assumes l: "l = (case loop of None \<Rightarrow> get_event_loop w | Some x \<Rightarrow> x)"
    and a: "async fu (Some l) (snd (call_later l d (CReleaseWaiter (next_fid w) (VBool False))
       (snd (Future_init (Some l) w)))) = (Inr f, w3)"
  shows "\<exists>w'. resume_coro n (WaitFor0 fu (Some d) loop) Next w =
        (Yielded (From (OFut (next_fid w))) (WaitFor1 (next_fid w) (next_hid w) f), w') \<and>
     w' = add_done_callback f (ReleaseWaiterP (next_fid w) (VBool True)) w3 \<and>
     tm_call (timers w' (next_hid w)) = CReleaseWaiter (next_fid w) (VBool False) \<and>
     \<not> tm_cancelled (timers w' (next_hid w)) \<and> is_future w' f"
proof -
  have nh: "next_hid (snd (Future_init (Some l) w)) = next_hid w"
    by (simp add: Future_init_def Let_def)
  have r: "resume_coro n (WaitFor0 fu (Some d) loop) Next w =
        (Yielded (From (OFut (next_fid w))) (WaitFor1 (next_fid w) (next_hid w) f),
         add_done_callback f (ReleaseWaiterP (next_fid w) (VBool True)) w3)"
    apply (simp add: unstarted_def wait_for_start_def l [symmetric])
    apply (subst Future_init_eq)
    apply (simp del: split_paired_All)
    apply (subst call_later_eq)
    apply (simp add: a nh)
    done
  have t: "timers w3 (next_hid w) = \<lparr>tm_loop = l, tm_delay = d,
      tm_call = CReleaseWaiter (next_fid w) (VBool False), tm_cancelled = False\<rparr>"
    using async_timers [OF a] by (simp add: call_later_def nh)
  have i: "is_future w3 f" using async_is_future [OF a] .
  show ?thesis using r t i by (simp add: add_done_callback_timers is_future_def)
qed

lemma wait_for_timeout:
  "\<not> truthy v \<Longrightarrow>
   cancel n f (snd (remove_done_callback f (ReleaseWaiterP waiter (VBool True)) w)) = (Inr b, w2) \<Longrightarrow>
   resume_coro n (WaitFor1 waiter h f) (Send v) w = (Raised TimeoutError, handle_cancel h w2) \<and>
   tm_cancelled (timers (handle_cancel h w2) h)"
  by (auto simp add: wait_for_resume_def resumed_value_def handle_cancel_def split: prod.splits)

lemma wait_for_completed:
  "truthy v \<Longrightarrow> Future_result f w = (res, w1) \<Longrightarrow>
   resume_coro n (WaitFor1 waiter h f) (Send v) w =
     ((case res of Inl e \<Rightarrow> Raised e | Inr x \<Rightarrow> ReturnExc x), handle_cancel h w1) \<and>
   tm_cancelled (timers (handle_cancel h w1) h)"
  by (auto simp add: wait_for_resume_def resumed_value_def handle_cancel_def
      split: prod.splits sum.splits)

lemma release_waiter_first:
  "f_state (fut w waiter) = PENDING \<Longrightarrow>
   \<exists>w'. run_call n (CReleaseWaiter waiter v) w = (None, w') \<and>
     f_state (fut w' waiter) = FINISHED \<and> f_result (fut w' waiter) = v \<and>
     f_exception (fut w' waiter) = f_exception (fut w waiter) \<and>
     ready w' = ready w @
       map (\<lambda>cb. (f_loop (fut w waiter), apply_cb cb waiter)) (f_callbacks (fut w waiter)) \<and>
     run_call n (CReleaseWaiter waiter u) w' = (None, w')"
  by (simp add: run_call_def release_waiter_def heap_defs)

lemma cancel_pending_True:
  "cancel n f w = (Inr b, w') \<Longrightarrow> \<not> Future_done w f \<Longrightarrow> b"
proof (cases n)
  case 0
  assume "cancel n f w = (Inr b, w')"
  then show ?thesis using 0 by simp
next
  case (Suc m)
  assume c: "cancel n f w = (Inr b, w')" and nd: "\<not> Future_done w f"
  show ?thesis
  proof (cases "tasks w f")
    case (Some t)
    then show ?thesis using c nd Suc
      by (cases "t_fut_waiter t") (auto split: prod.splits sum.splits bool.splits)
  next
    case None
    note nt = this
    show ?thesis
    proof (cases "gathers w f")
      case (Some g)
      then show ?thesis using c nd Suc nt by (auto split: prod.splits sum.splits)
    next
      case None
      then show ?thesis using c nd Suc nt
        by (auto simp add: Future_cancel_def Future_done_def split: if_splits)
    qed
  qed
qed


text \<open>
  C6.  \<open>wait_for\<close> with a timeout: the first step makes the waiter, arms a timer whose
  call is \<open>_release_waiter(waiter, False)\<close>, lifts the awaitable with \<open>async\<close> (a
  coroutine becomes a Task) and registers \<open>_release_waiter(waiter, True)\<close> as its
  done-callback; then it waits for the waiter.  Whichever call reaches the pending waiter
  first sets its result, and the later one changes nothing.  Resumed with a false value
  (the timer was first), it removes the callback, calls \<open>cancel()\<close> on the inner future
  (which returns \<open>True\<close> when that future is not done), cancels the timer handle and
  raises \<open>TimeoutError\<close>.  Resumed with a true value (the inner future was first), it
  cancels the timer handle and returns the result of the inner future or raises its
  exception.
\<close>

theorem wait_for_timeout_semantics:
  "(l = (case loop of None \<Rightarrow> get_event_loop w | Some x \<Rightarrow> x) \<and>
    async fu (Some l) (snd (call_later l d (CReleaseWaiter (next_fid w) (VBool False))
       (snd (Future_init (Some l) w)))) = (Inr f, w3) \<longrightarrow>
      (\<exists>w'. resume_coro n (WaitFor0 fu (Some d) loop) Next w =
           (Yielded (From (OFut (next_fid w))) (WaitFor1 (next_fid w) (next_hid w) f), w') \<and>
         w' = add_done_callback f (ReleaseWaiterP (next_fid w) (VBool True)) w3 \<and>
         tm_call (timers w' (next_hid w)) = CReleaseWaiter (next_fid w) (VBool False) \<and>
         \<not> tm_cancelled (timers w' (next_hid w)) \<and> is_future w' f)) \<and>
   (f_state (fut w waiter) = PENDING \<longrightarrow>
      (\<exists>w'. run_call n (CReleaseWaiter waiter v) w = (None, w') \<and>
         f_state (fut w' waiter) = FINISHED \<and> f_result (fut w' waiter) = v \<and>
         run_call n (CReleaseWaiter waiter u) w' = (None, w'))) \<and>
   (\<not> truthy v \<and>
    cancel n f (snd (remove_done_callback f (ReleaseWaiterP waiter (VBool True)) w)) = (Inr b, w2)
      \<longrightarrow>
      resume_coro n (WaitFor1 waiter h f) (Send v) w = (Raised TimeoutError, handle_cancel h w2) \<and>
      tm_cancelled (timers (handle_cancel h w2) h) \<and>
      (\<not> Future_done w f \<longrightarrow> b)) \<and>
   (truthy v \<and> Future_result f w = (res, w1) \<longrightarrow>
      resume_coro n (WaitFor1 waiter h f) (Send v) w =
        ((case res of Inl e \<Rightarrow> Raised e | Inr x \<Rightarrow> ReturnExc x), handle_cancel h w1) \<and>
      tm_cancelled (timers (handle_cancel h w1) h))"
proof -
  have A: "l = (case loop of None \<Rightarrow> get_event_loop w | Some x \<Rightarrow> x) \<and>
    async fu (Some l) (snd (call_later l d (CReleaseWaiter (next_fid w) (VBool False))
       (snd (Future_init (Some l) w)))) = (Inr f, w3) \<longrightarrow>
      (\<exists>w'. resume_coro n (WaitFor0 fu (Some d) loop) Next w =
           (Yielded (From (OFut (next_fid w))) (WaitFor1 (next_fid w) (next_hid w) f), w') \<and>
         w' = add_done_callback f (ReleaseWaiterP (next_fid w) (VBool True)) w3 \<and>
         tm_call (timers w' (next_hid w)) = CReleaseWaiter (next_fid w) (VBool False) \<and>
         \<not> tm_cancelled (timers w' (next_hid w)) \<and> is_future w' f)"
    using wait_for_begin [where l = l and loop = loop and w = w and fu = fu and d = d
        and f = f and ?w3.0 = w3 and n = n] by blast
  have B: "f_state (fut w waiter) = PENDING \<longrightarrow>
      (\<exists>w'. run_call n (CReleaseWaiter waiter v) w = (None, w') \<and>
         f_state (fut w' waiter) = FINISHED \<and> f_result (fut w' waiter) = v \<and>
         run_call n (CReleaseWaiter waiter u) w' = (None, w'))"
    using release_waiter_first [where w = w and waiter = waiter and n = n and v = v and u = u]
    by blast
  have C: "\<not> truthy v \<and>
    cancel n f (snd (remove_done_callback f (ReleaseWaiterP waiter (VBool True)) w)) = (Inr b, w2)
      \<longrightarrow>
      resume_coro n (WaitFor1 waiter h f) (Send v) w = (Raised TimeoutError, handle_cancel h w2) \<and>
      tm_cancelled (timers (handle_cancel h w2) h) \<and>
      (\<not> Future_done w f \<longrightarrow> b)"
  proof (intro impI, elim conjE)
    assume h: "\<not> truthy v"
      "cancel n f (snd (remove_done_callback f (ReleaseWaiterP waiter (VBool True)) w)) = (Inr b, w2)"
    have "Future_done (snd (remove_done_callback f (ReleaseWaiterP waiter (VBool True)) w)) f =
        Future_done w f"
      using same_states_done [OF remove_done_callback_states] .
    then have "\<not> Future_done w f \<longrightarrow> b" using cancel_pending_True [OF h(2)] by simp
    then show "resume_coro n (WaitFor1 waiter h f) (Send v) w =
        (Raised TimeoutError, handle_cancel h w2) \<and>
      tm_cancelled (timers (handle_cancel h w2) h) \<and> (\<not> Future_done w f \<longrightarrow> b)"
      using wait_for_timeout [OF h] by blast
  qed
  have D: "truthy v \<and> Future_result f w = (res, w1) \<longrightarrow>
      resume_coro n (WaitFor1 waiter h f) (Send v) w =
        ((case res of Inl e \<Rightarrow> Raised e | Inr x \<Rightarrow> ReturnExc x), handle_cancel h w1) \<and>
      tm_cancelled (timers (handle_cancel h w1) h)"
    using wait_for_completed [where v = v and f = f and w = w and res = res and ?w1.0 = w1
        and n = n and waiter = waiter and h = h] by blast
  from A B C D show ?thesis by blast
qed


lemmas wait_for_eval = wait_for_started_def wait_for_timer_fired_def wait_for_inner_done_def
  run_once_def run_call_def release_waiter_def unstarted_def wait_for_start_def
  wait_for_resume_def resumed_value_def call_later_def handle_cancel_def async_def From_def
  two_futures_def initial_world_def heap_defs Let_def numeral_2_eq_2

lemma wait_for_example_start:
  "async (OFut 0) (Some 0)
     (snd (call_later 0 1 (CReleaseWaiter (next_fid two_futures) (VBool False))
        (snd (Future_init (Some 0) two_futures)))) =
   (Inr 0, snd (call_later 0 1 (CReleaseWaiter (next_fid two_futures) (VBool False))
        (snd (Future_init (Some 0) two_futures))))"
  "next_fid two_futures = 2" "next_hid two_futures = 0" "get_event_loop two_futures = 0"
  "tm_call (timers wait_for_started 0) = CReleaseWaiter 2 (VBool False)"
  "f_state (fut wait_for_started 2) = PENDING"
  by (simp_all add: wait_for_eval)

lemma wait_for_example_timer:
  "f_state (fut wait_for_timer_fired 2) = FINISHED"
  "f_result (fut wait_for_timer_fired 2) = VBool False"
  "\<not> Future_done wait_for_timer_fired 0"
  "cancel 1 0 (snd (remove_done_callback 0 (ReleaseWaiterP 2 (VBool True)) wait_for_timer_fired)) =
     (Inr True, snd (Future_cancel 0
        (snd (remove_done_callback 0 (ReleaseWaiterP 2 (VBool True)) wait_for_timer_fired))))"
  "f_state (fut (snd (Future_cancel 0
        (snd (remove_done_callback 0 (ReleaseWaiterP 2 (VBool True)) wait_for_timer_fired)))) 0)
     = CANCELLED"
  by (simp_all add: wait_for_eval)

lemma wait_for_example_done:
  "f_state (fut wait_for_inner_done 2) = FINISHED"
  "f_result (fut wait_for_inner_done 2) = VBool True"
  "Future_result 0 wait_for_inner_done =
     (Inr (VInt 7), upd_fut 0 (\<lambda>x. x\<lparr>f_unobserved := False\<rparr>) wait_for_inner_done)"
  by (simp_all add: wait_for_eval)

theorem wait_for_timeout_semantics_witness:
  "fst (resume_coro 1 (WaitFor0 (OFut 0) (Some 1) None) Next two_futures) =
     Yielded (From (OFut 2)) (WaitFor1 2 0 0) \<and>
   tm_call (timers wait_for_started 0) = CReleaseWaiter 2 (VBool False) \<and>
   f_state (fut wait_for_started 2) = PENDING \<and>
   f_result (fut wait_for_timer_fired 2) = VBool False \<and>
   \<not> truthy (VBool False) \<and> \<not> Future_done wait_for_timer_fired 0 \<and>
   fst (resume_coro 1 (WaitFor1 2 0 0) (Send (VBool False)) wait_for_timer_fired) =
     Raised TimeoutError \<and>
   f_state (fut (snd (resume_coro 1 (WaitFor1 2 0 0) (Send (VBool False)) wait_for_timer_fired)) 0)
     = CANCELLED \<and>
   tm_cancelled
     (timers (snd (resume_coro 1 (WaitFor1 2 0 0) (Send (VBool False)) wait_for_timer_fired)) 0) \<and>
   f_result (fut wait_for_inner_done 2) = VBool True \<and> truthy (VBool True) \<and>
   fst (resume_coro 1 (WaitFor1 2 0 0) (Send (VBool True)) wait_for_inner_done) =
     ReturnExc (VInt 7) \<and>
   tm_cancelled
     (timers (snd (resume_coro 1 (WaitFor1 2 0 0) (Send (VBool True)) wait_for_inner_done)) 0)"
proof -
  note S = wait_for_timeout_semantics [where loop = None and l = 0 and w = two_futures
      and fu = "OFut 0" and d = 1 and f = 0 and n = 1
      and ?w3.0 = "snd (call_later 0 1 (CReleaseWaiter (next_fid two_futures) (VBool False))
        (snd (Future_init (Some 0) two_futures)))"]
  note T = wait_for_timeout_semantics [where w = wait_for_timer_fired and v = "VBool False"
      and n = 1 and f = 0 and waiter = 2 and h = 0 and b = True
      and ?w2.0 = "snd (Future_cancel 0
        (snd (remove_done_callback 0 (ReleaseWaiterP 2 (VBool True)) wait_for_timer_fired)))"]
  note D = wait_for_timeout_semantics [where w = wait_for_inner_done and v = "VBool True"
      and n = 1 and f = 0 and waiter = 2 and h = 0 and res = "Inr (VInt 7)"
      and ?w1.0 = "upd_fut 0 (\<lambda>x. x\<lparr>f_unobserved := False\<rparr>) wait_for_inner_done"]
  have s: "fst (resume_coro 1 (WaitFor0 (OFut 0) (Some 1) None) Next two_futures) =
     Yielded (From (OFut 2)) (WaitFor1 2 0 0)"
    using S wait_for_example_start by (auto simp del: resume_coro.simps)
  have t: "resume_coro 1 (WaitFor1 2 0 0) (Send (VBool False)) wait_for_timer_fired =
      (Raised TimeoutError, handle_cancel 0 (snd (Future_cancel 0
        (snd (remove_done_callback 0 (ReleaseWaiterP 2 (VBool True)) wait_for_timer_fired)))))"
    using T wait_for_example_timer by (simp del: resume_coro.simps cancel.simps)
  have d: "resume_coro 1 (WaitFor1 2 0 0) (Send (VBool True)) wait_for_inner_done =
      (ReturnExc (VInt 7),
       handle_cancel 0 (upd_fut 0 (\<lambda>x. x\<lparr>f_unobserved := False\<rparr>) wait_for_inner_done))"
    using D wait_for_example_done by (simp del: resume_coro.simps)
  show ?thesis
    using s t d wait_for_example_start wait_for_example_timer wait_for_example_done
    by (simp add: handle_cancel_def fut_def upd_fut_def del: resume_coro.simps cancel.simps)
qed


subsection \<open>\<open>as_completed\<close>\<close>

lemma put_nowait_no_getters:
  "ac_getters (acs w c) = [] \<Longrightarrow> put_nowait c x w = (None, upd_ac c (\<lambda>e. e\<lparr>ac_done := ac_done e @ [x]\<rparr>) w)"
  by (simp add: put_nowait_def)





















end
